theory Spec2Isabelle
  imports Complex_Main "HOL-Library.Sublist"
begin

section \<open>Python values used by the benchmark code\<close>

text \<open>
  Strings are lists of characters with code points below 256; Python's unbounded
  integers are \<open>int\<close>; Python floats that the code only compares, subtracts and divides
  are idealised as rationals.  An exception is a value: the name of its class
  (\<open>type(e).__name__\<close>) and its message (\<open>str(e)\<close>).  Every exception of the model is
  an instance of \<open>Exception\<close>, the class both \<open>except\<close> clauses of the code catch.
\<close>

datatype exn = Exception (exn_type: string) (exn_message: string)

definition and_then :: "exn + 'a \<Rightarrow> ('a \<Rightarrow> exn + 'b) \<Rightarrow> exn + 'b" where
  "and_then m f = (case m of Inl e \<Rightarrow> Inl e | Inr x \<Rightarrow> f x)"

fun traverse :: "('a \<Rightarrow> exn + 'b) \<Rightarrow> 'a list \<Rightarrow> exn + 'b list" where
  "traverse f [] = Inr []"
| "traverse f (x # xs) =
     and_then (f x) (\<lambda>y. and_then (traverse f xs) (\<lambda>ys. Inr (y # ys)))"

subsection \<open>\<open>str\<close> and \<open>repr\<close>\<close>

definition digit_char :: "nat \<Rightarrow> char" where
  "digit_char n = ''0123456789abcdef'' ! n"

fun digits_of_nat :: "nat \<Rightarrow> string" where
  "digits_of_nat n =
     (if n < 10 then [digit_char n]
      else digits_of_nat (n div 10) @ [digit_char (n mod 10)])"

declare digits_of_nat.simps [simp del]

definition str_int :: "int \<Rightarrow> string" where
  "str_int i = (if i < 0 then CHR ''-'' # digits_of_nat (nat (- i)) else digits_of_nat (nat i))"

definition isprintable :: "char \<Rightarrow> bool" where
  "isprintable c =
     (let n = (of_char c :: nat)
      in (32 \<le> n \<and> n < 127) \<or> (161 \<le> n \<and> n < 173) \<or> 173 < n)"

definition repr_char :: "char \<Rightarrow> char \<Rightarrow> string" where
  "repr_char q c =
     (if c = q \<or> c = CHR 0x5C then [CHR 0x5C, c]
      else if c = CHR 0x0A then [CHR 0x5C, CHR ''n'']
      else if c = CHR 0x0D then [CHR 0x5C, CHR ''r'']
      else if c = CHR 0x09 then [CHR 0x5C, CHR ''t'']
      else if isprintable c then [c]
      else [CHR 0x5C, CHR ''x'', digit_char (of_char c div 16), digit_char (of_char c mod 16)])"

definition str_repr :: "string \<Rightarrow> string" where
  "str_repr s =
     (let q = (if CHR 0x27 \<in> set s \<and> CHR 0x22 \<notin> set s then CHR 0x22 else CHR 0x27)
      in q # concat (map (repr_char q) s) @ [q])"

fun join :: "string \<Rightarrow> string list \<Rightarrow> string" where
  "join sep [] = []"
| "join sep [x] = x"
| "join sep (x # y # ys) = x @ sep @ join sep (y # ys)"

definition list_repr :: "string list \<Rightarrow> string" where
  "list_repr xs = ''['' @ join '', '' (map str_repr xs) @ '']''"

subsection \<open>Dictionaries of JSON-like values\<close>

text \<open>
  \<open>Task.to_dict\<close> builds a dictionary literal of strings, integers, \<open>None\<close>, lists and
  nested dictionaries.  A dictionary is an association list in insertion order; a lookup
  takes the first entry of a key, and the literals of the code have distinct keys.
\<close>

datatype pyval =
    PNone
  | PStr string
  | PInt int
  | PList "pyval list"
  | PDict "(string \<times> pyval) list"

type_synonym pydict = "(string \<times> pyval) list"

fun pyval_repr :: "pyval \<Rightarrow> string" where
  "pyval_repr PNone = ''None''"
| "pyval_repr (PStr s) = str_repr s"
| "pyval_repr (PInt i) = str_int i"
| "pyval_repr (PList vs) = ''['' @ join '', '' (map pyval_repr vs) @ '']''"
| "pyval_repr (PDict kvs) =
     ''{'' @ join '', '' (map (\<lambda>(k, v). str_repr k @ '': '' @ pyval_repr v) kvs) @ ''}''"

definition KeyError :: "string \<Rightarrow> exn" where
  "KeyError k = Exception ''KeyError'' (str_repr k)"

definition ValueError :: "string \<Rightarrow> exn" where
  "ValueError msg = Exception ''ValueError'' msg"

text \<open>\<open>d[k]\<close> raises \<open>KeyError\<close> on a missing key; \<open>d.get(k, default)\<close> does not.\<close>

definition getitem :: "pydict \<Rightarrow> string \<Rightarrow> exn + pyval" where
  "getitem d k = (case map_of d k of None \<Rightarrow> Inl (KeyError k) | Some v \<Rightarrow> Inr v)"

definition get_default :: "pydict \<Rightarrow> string \<Rightarrow> pyval \<Rightarrow> pyval" where
  "get_default d k dflt = (case map_of d k of None \<Rightarrow> dflt | Some v \<Rightarrow> v)"

text \<open>
  The dataclasses declare the type of every field and Python does not check it.  The
  records below are typed, so a dictionary value of another shape than its field's
  declared type has no counterpart in the model: reading it is reported as
  \<open>ill_typed\<close>, an outcome of the model and not of the code.
\<close>

definition ill_typed :: "string \<Rightarrow> exn" where
  "ill_typed what = Exception ''IllTyped'' what"

fun as_str :: "pyval \<Rightarrow> exn + string" where
  "as_str (PStr s) = Inr s"
| "as_str _ = Inl (ill_typed ''str'')"

fun as_int :: "pyval \<Rightarrow> exn + int" where
  "as_int (PInt i) = Inr i"
| "as_int _ = Inl (ill_typed ''int'')"

fun as_opt_str :: "pyval \<Rightarrow> exn + string option" where
  "as_opt_str PNone = Inr None"
| "as_opt_str (PStr s) = Inr (Some s)"
| "as_opt_str _ = Inl (ill_typed ''Optional[str]'')"

fun as_opt_int :: "pyval \<Rightarrow> exn + int option" where
  "as_opt_int PNone = Inr None"
| "as_opt_int (PInt i) = Inr (Some i)"
| "as_opt_int _ = Inl (ill_typed ''Optional[int]'')"

fun as_str_list :: "pyval \<Rightarrow> exn + string list" where
  "as_str_list (PList vs) = traverse as_str vs"
| "as_str_list _ = Inl (ill_typed ''list[str]'')"

fun as_dict :: "pyval \<Rightarrow> exn + pydict" where
  "as_dict (PDict d) = Inr d"
| "as_dict _ = Inl (ill_typed ''dict'')"

fun as_dict_list :: "pyval \<Rightarrow> exn + pydict list" where
  "as_dict_list (PList vs) = traverse as_dict vs"
| "as_dict_list _ = Inl (ill_typed ''list[dict]'')"

definition opt_str_val :: "string option \<Rightarrow> pyval" where
  "opt_str_val x = (case x of None \<Rightarrow> PNone | Some s \<Rightarrow> PStr s)"

definition opt_int_val :: "int option \<Rightarrow> pyval" where
  "opt_int_val x = (case x of None \<Rightarrow> PNone | Some i \<Rightarrow> PInt i)"

definition str_list_val :: "string list \<Rightarrow> pyval" where
  "str_list_val xs = PList (map PStr xs)"

section \<open>task.py: the task model\<close>

datatype Difficulty = EASY | MEDIUM | HARD | EXTREME

datatype Category = FROM_SCRATCH | TOOL_ASSISTED | MODIFICATION | DEBUGGING | CONFIGURATION

datatype VerificationType = BOOT_TEST | FILE_CHECK | CHECKSUM | COMMAND_OUTPUT | SIZE_CHECK

fun Difficulty_value :: "Difficulty \<Rightarrow> string" where
  "Difficulty_value EASY = ''easy''"
| "Difficulty_value MEDIUM = ''medium''"
| "Difficulty_value HARD = ''hard''"
| "Difficulty_value EXTREME = ''extreme''"

fun Category_value :: "Category \<Rightarrow> string" where
  "Category_value FROM_SCRATCH = ''from_scratch''"
| "Category_value TOOL_ASSISTED = ''tool_assisted''"
| "Category_value MODIFICATION = ''modification''"
| "Category_value DEBUGGING = ''debugging''"
| "Category_value CONFIGURATION = ''configuration''"

fun VerificationType_value :: "VerificationType \<Rightarrow> string" where
  "VerificationType_value BOOT_TEST = ''boot_test''"
| "VerificationType_value FILE_CHECK = ''file_check''"
| "VerificationType_value CHECKSUM = ''checksum''"
| "VerificationType_value COMMAND_OUTPUT = ''command_output''"
| "VerificationType_value SIZE_CHECK = ''size_check''"

text \<open>
  Calling an enumeration class on a value (\<open>Difficulty(x)\<close>) finds the member with that
  value, in declaration order, or raises \<open>ValueError\<close>.
\<close>

definition enum_lookup :: "string \<Rightarrow> ('a \<Rightarrow> string) \<Rightarrow> 'a list \<Rightarrow> pyval \<Rightarrow> exn + 'a" where
  "enum_lookup cls val members x =
     (case find (\<lambda>m. PStr (val m) = x) members of
        Some m \<Rightarrow> Inr m
      | None \<Rightarrow> Inl (ValueError (pyval_repr x @ '' is not a valid '' @ cls)))"

definition Difficulty_of :: "pyval \<Rightarrow> exn + Difficulty" where
  "Difficulty_of = enum_lookup ''Difficulty'' Difficulty_value [EASY, MEDIUM, HARD, EXTREME]"

definition Category_of :: "pyval \<Rightarrow> exn + Category" where
  "Category_of =
     enum_lookup ''Category'' Category_value
       [FROM_SCRATCH, TOOL_ASSISTED, MODIFICATION, DEBUGGING, CONFIGURATION]"

definition VerificationType_of :: "pyval \<Rightarrow> exn + VerificationType" where
  "VerificationType_of =
     enum_lookup ''VerificationType'' VerificationType_value
       [BOOT_TEST, FILE_CHECK, CHECKSUM, COMMAND_OUTPUT, SIZE_CHECK]"

record VerificationStep =
  type :: VerificationType
  description :: string
  command :: "string option"
  expected_output :: "string option"
  expected_files :: "string list"
  max_size_mb :: "int option"
  min_size_mb :: "int option"
  timeout_seconds :: int

record Task =
  id :: string
  name :: string
  description :: string
  category :: Category
  difficulty :: Difficulty
  instructions :: string
  expected_steps :: int
  prerequisites :: "string list"
  base_image :: string
  required_packages :: "string list"
  required_disk_gb :: int
  required_ram_gb :: int
  verification_steps :: "VerificationStep list"
  success_artifacts :: "string list"
  time_limit_minutes :: int
  expected_build_minutes :: int
  tags :: "string list"
  reference_docs :: "string list"
  common_failure_points :: "string list"

text \<open>The dictionary of one verification step, as the comprehension in \<open>to_dict\<close> builds it.\<close>

definition step_to_dict :: "VerificationStep \<Rightarrow> pydict" where
  "step_to_dict v =
     [(''type'', PStr (VerificationType_value (VerificationStep.type v))),
      (''description'', PStr (VerificationStep.description v)),
      (''command'', opt_str_val (command v)),
      (''expected_output'', opt_str_val (expected_output v)),
      (''expected_files'', str_list_val (expected_files v)),
      (''max_size_mb'', opt_int_val (max_size_mb v)),
      (''min_size_mb'', opt_int_val (min_size_mb v)),
      (''timeout_seconds'', PInt (timeout_seconds v))]"

definition to_dict :: "Task \<Rightarrow> pydict" where
  "to_dict self =
     [(''id'', PStr (Task.id self)),
      (''name'', PStr (name self)),
      (''description'', PStr (Task.description self)),
      (''category'', PStr (Category_value (category self))),
      (''difficulty'', PStr (Difficulty_value (difficulty self))),
      (''instructions'', PStr (instructions self)),
      (''expected_steps'', PInt (expected_steps self)),
      (''prerequisites'', str_list_val (prerequisites self)),
      (''base_image'', PStr (base_image self)),
      (''required_packages'', str_list_val (required_packages self)),
      (''required_disk_gb'', PInt (required_disk_gb self)),
      (''required_ram_gb'', PInt (required_ram_gb self)),
      (''verification_steps'', PList (map (PDict \<circ> step_to_dict) (verification_steps self))),
      (''success_artifacts'', str_list_val (success_artifacts self)),
      (''time_limit_minutes'', PInt (time_limit_minutes self)),
      (''expected_build_minutes'', PInt (expected_build_minutes self)),
      (''tags'', str_list_val (tags self)),
      (''reference_docs'', str_list_val (reference_docs self)),
      (''common_failure_points'', str_list_val (common_failure_points self))]"

text \<open>One element of the comprehension in \<open>from_dict\<close>: the keyword arguments in order.\<close>

definition step_from_dict :: "pydict \<Rightarrow> exn + VerificationStep" where
  "step_from_dict v =
     and_then (and_then (getitem v ''type'') VerificationType_of) (\<lambda>ty.
     and_then (and_then (getitem v ''description'') as_str) (\<lambda>de.
     and_then (as_opt_str (get_default v ''command'' PNone)) (\<lambda>co.
     and_then (as_opt_str (get_default v ''expected_output'' PNone)) (\<lambda>eo.
     and_then (as_str_list (get_default v ''expected_files'' (PList []))) (\<lambda>ef.
     and_then (as_opt_int (get_default v ''max_size_mb'' PNone)) (\<lambda>ma.
     and_then (as_opt_int (get_default v ''min_size_mb'' PNone)) (\<lambda>mi.
     and_then (as_int (get_default v ''timeout_seconds'' (PInt 300))) (\<lambda>ts.
     Inr \<lparr> VerificationStep.type = ty, VerificationStep.description = de,
           command = co, expected_output = eo, expected_files = ef,
           max_size_mb = ma, min_size_mb = mi, timeout_seconds = ts \<rparr>))))))))"

definition from_dict :: "pydict \<Rightarrow> exn + Task" where
  "from_dict data =
     and_then (and_then (as_dict_list (get_default data ''verification_steps'' (PList [])))
                 (traverse step_from_dict)) (\<lambda>steps.
     and_then (and_then (getitem data ''id'') as_str) (\<lambda>i.
     and_then (and_then (getitem data ''name'') as_str) (\<lambda>na.
     and_then (and_then (getitem data ''description'') as_str) (\<lambda>de.
     and_then (and_then (getitem data ''category'') Category_of) (\<lambda>ca.
     and_then (and_then (getitem data ''difficulty'') Difficulty_of) (\<lambda>di.
     and_then (and_then (getitem data ''instructions'') as_str) (\<lambda>ins.
     and_then (and_then (getitem data ''expected_steps'') as_int) (\<lambda>es.
     and_then (as_str_list (get_default data ''prerequisites'' (PList []))) (\<lambda>pr.
     and_then (as_str (get_default data ''base_image'' (PStr ''ubuntu:22.04''))) (\<lambda>bi.
     and_then (as_str_list (get_default data ''required_packages'' (PList []))) (\<lambda>rp.
     and_then (as_int (get_default data ''required_disk_gb'' (PInt 20))) (\<lambda>rd.
     and_then (as_int (get_default data ''required_ram_gb'' (PInt 4))) (\<lambda>rr.
     and_then (as_str_list (get_default data ''success_artifacts'' (PList []))) (\<lambda>sa.
     and_then (as_int (get_default data ''time_limit_minutes'' (PInt 120))) (\<lambda>tl.
     and_then (as_int (get_default data ''expected_build_minutes'' (PInt 30))) (\<lambda>eb.
     and_then (as_str_list (get_default data ''tags'' (PList []))) (\<lambda>tg.
     and_then (as_str_list (get_default data ''reference_docs'' (PList []))) (\<lambda>rf.
     and_then (as_str_list (get_default data ''common_failure_points'' (PList []))) (\<lambda>cf.
     Inr \<lparr> Task.id = i, name = na, Task.description = de, category = ca, difficulty = di,
           instructions = ins, expected_steps = es, prerequisites = pr, base_image = bi,
           required_packages = rp, required_disk_gb = rd, required_ram_gb = rr,
           verification_steps = steps, success_artifacts = sa, time_limit_minutes = tl,
           expected_build_minutes = eb, tags = tg, reference_docs = rf,
           common_failure_points = cf \<rparr>)))))))))))))))))))"

section \<open>The operating system, as the code sees it\<close>

text \<open>
  The code reads clocks, inspects files, runs processes and writes a file.  The state
  of the machine is a value of an arbitrary type \<open>'w\<close>, and the library calls of the
  code are the fields of a record of functions over it.  Reading a clock, running a
  process and writing a file may change the state; \<open>Path.exists\<close> and \<open>Path.stat\<close>
  only read it.  A call that raises returns \<open>Inl\<close>.  \<open>subprocess.run\<close> takes its
  arguments and its timeout (\<open>None\<close> when the call passes none); output is always
  captured as text.  \<open>open_write\<close> is \<open>open(path, "w")\<close> followed by the write of
  the document: it returns the exception when one is raised (a missing directory, a
  path that cannot be written), and then nothing has been written.
\<close>

record CompletedProcess =
  returncode :: int
  stdout :: string
  stderr :: string

datatype popen_args = Shell string | Argv "string list"

record datetime =
  year :: nat
  month :: nat
  day :: nat
  hour :: nat
  minute :: nat
  second :: nat
  microsecond :: nat

record 'w os =
  time_time :: "'w \<Rightarrow> rat \<times> 'w"
  datetime_now :: "'w \<Rightarrow> datetime \<times> 'w"
  path_exists :: "'w \<Rightarrow> string \<Rightarrow> bool"
  path_stat_size :: "'w \<Rightarrow> string \<Rightarrow> exn + nat"
  subprocess_run :: "'w \<Rightarrow> popen_args \<Rightarrow> int option \<Rightarrow> (exn + CompletedProcess) \<times> 'w"
  open_write :: "'w \<Rightarrow> string \<Rightarrow> exn option \<times> 'w"

definition zero_pad :: "nat \<Rightarrow> nat \<Rightarrow> string" where
  "zero_pad width n =
     (let d = digits_of_nat n in replicate (width - length d) (CHR ''0'') @ d)"

definition isoformat :: "datetime \<Rightarrow> string" where
  "isoformat dt =
     zero_pad 4 (year dt) @ ''-'' @ zero_pad 2 (month dt) @ ''-'' @ zero_pad 2 (day dt) @ ''T'' @
     zero_pad 2 (hour dt) @ '':'' @ zero_pad 2 (minute dt) @ '':'' @ zero_pad 2 (second dt) @
     (if microsecond dt = 0 then [] else ''.'' @ zero_pad 6 (microsecond dt))"


subsection \<open>Built-ins on strings and numbers\<close>

text \<open>\<open>sub in s\<close> for strings.\<close>

fun str_contains :: "string \<Rightarrow> string \<Rightarrow> bool" where
  "str_contains [] sub = (sub = [])"
| "str_contains (c # cs) sub = (prefix sub (c # cs) \<or> str_contains cs sub)"

definition isspace :: "char \<Rightarrow> bool" where
  "isspace c =
     (let n = (of_char c :: nat)
      in (9 \<le> n \<and> n \<le> 13) \<or> (28 \<le> n \<and> n \<le> 32) \<or> n = 133 \<or> n = 160)"

definition strip :: "string \<Rightarrow> string" where
  "strip s = rev (dropWhile isspace (rev (dropWhile isspace s)))"

text \<open>\<open>s.split()[0]\<close>: the first run of non-blank characters, \<open>IndexError\<close> when none.\<close>

definition split_first :: "string \<Rightarrow> exn + string" where
  "split_first s =
     (let t = dropWhile isspace s
      in if t = [] then Inl (Exception ''IndexError'' ''list index out of range'')
         else Inr (takeWhile (\<lambda>c. \<not> isspace c) t))"

definition isdigit :: "char \<Rightarrow> bool" where
  "isdigit c = (48 \<le> (of_char c :: nat) \<and> (of_char c :: nat) \<le> 57)"

text \<open>
  The digits of a decimal literal: single underscores may stand between digits.  The
  flag says whether the previous character was a digit.
\<close>

fun int_digits :: "bool \<Rightarrow> nat \<Rightarrow> string \<Rightarrow> nat option" where
  "int_digits p acc [] = (if p then Some acc else None)"
| "int_digits p acc (c # cs) =
     (if isdigit c then int_digits True (10 * acc + (of_char c - 48)) cs
      else if c = CHR ''_'' \<and> p then int_digits False acc cs
      else None)"

text \<open>\<open>int(s)\<close> on a string.\<close>

definition int_of_str :: "string \<Rightarrow> exn + int" where
  "int_of_str s =
     (let t = strip s;
          r = (case t of
                 [] \<Rightarrow> None
               | c # cs \<Rightarrow>
                   if c = CHR ''-'' then map_option (\<lambda>n. - int n) (int_digits False 0 cs)
                   else if c = CHR ''+'' then map_option int (int_digits False 0 cs)
                   else map_option int (int_digits False 0 t))
      in case r of
           None \<Rightarrow> Inl (ValueError (''invalid literal for int() with base 10: '' @ str_repr s))
         | Some i \<Rightarrow> Inr i)"

text \<open>\<open>int(x)\<close> on a float truncates towards zero.\<close>

definition int_trunc :: "rat \<Rightarrow> int" where
  "int_trunc x = (if 0 \<le> x then \<lfloor>x\<rfloor> else \<lceil>x\<rceil>)"

definition round_half_even :: "rat \<Rightarrow> int" where
  "round_half_even x =
     (let f = \<lfloor>x\<rfloor>; d = x - of_int f
      in if d < 1 / 2 then f else if 1 / 2 < d then f + 1 else if even f then f else f + 1)"

text \<open>The format \<open>:.1f\<close> and \<open>round(x, 2)\<close>, on the exact value.\<close>

definition format_1f :: "rat \<Rightarrow> string" where
  "format_1f x =
     (let n = round_half_even (x * 10); a = nat \<bar>n\<bar>
      in (if x < 0 then ''-'' else []) @ digits_of_nat (a div 10) @ ''.'' @
         digits_of_nat (a mod 10))"

definition round2 :: "rat \<Rightarrow> rat" where
  "round2 x = of_int (round_half_even (x * 100)) / 100"

text \<open>Truth values of optional fields: \<open>None\<close>, \<open>0\<close> and the empty string are false.\<close>

definition truthy_int :: "int option \<Rightarrow> bool" where
  "truthy_int x = (case x of None \<Rightarrow> False | Some i \<Rightarrow> i \<noteq> 0)"

definition truthy_str :: "string option \<Rightarrow> bool" where
  "truthy_str x = (case x of None \<Rightarrow> False | Some s \<Rightarrow> s \<noteq> [])"

definition truthy_rat :: "rat option \<Rightarrow> bool" where
  "truthy_rat x = (case x of None \<Rightarrow> False | Some t \<Rightarrow> t \<noteq> 0)"

section \<open>runner.py: the task runner\<close>

record RunnerConfig =
  docker_enabled :: bool
  qemu_enabled :: bool
  work_dir :: string
  timeout_multiplier :: rat
  verbose :: bool
  save_logs :: bool
  log_dir :: string

text \<open>The dictionary \<open>result\<close> of \<open>run_verification\<close>, with its six keys.\<close>

record VerificationResult =
  type :: string
  description :: string
  passed :: bool
  details :: string
  error :: "string option"
  duration_seconds :: rat

subsection \<open>\<open>_verify_files\<close>\<close>

text \<open>
  The loop over \<open>step.expected_files\<close>; \<open>missing\<close> is the list \<open>missing_files\<close> so far.
\<close>

fun verify_files_loop ::
  "'w os \<Rightarrow> string \<Rightarrow> string list \<Rightarrow> string list \<Rightarrow> 'w \<Rightarrow> (exn + string list) \<times> 'w" where
  "verify_files_loop os container_id [] missing w = (Inr missing, w)"
| "verify_files_loop os container_id (file_path # rest) missing w =
     (if container_id = ''local'' then
        verify_files_loop os container_id rest
          (if path_exists os w file_path then missing else missing @ [file_path]) w
      else
        (case subprocess_run os w
                (Argv [''docker'', ''exec'', container_id, ''test'', ''-f'', file_path]) None of
           (Inl e, w') \<Rightarrow> (Inl e, w')
         | (Inr check_result, w') \<Rightarrow>
             verify_files_loop os container_id rest
               (if returncode check_result = 0 then missing else missing @ [file_path]) w'))"

definition verify_files ::
  "'w os \<Rightarrow> VerificationStep \<Rightarrow> string \<Rightarrow> VerificationResult \<Rightarrow> 'w
     \<Rightarrow> (exn + VerificationResult) \<times> 'w" where
  "verify_files os step container_id result w =
     (case verify_files_loop os container_id (expected_files step) [] w of
        (Inl e, w') \<Rightarrow> (Inl e, w')
      | (Inr missing_files, w') \<Rightarrow>
          (Inr (result\<lparr> passed := (length missing_files = 0),
                        details :=
                          (if missing_files \<noteq> [] then ''Missing files: '' @ list_repr missing_files
                           else ''All '' @ str_int (int (length (expected_files step))) @
                                '' files found'') \<rparr>), w'))"

subsection \<open>\<open>_verify_size\<close>\<close>

text \<open>
  The head of the loop body: the size of one file in bytes.  Locally \<open>stat\<close> raises for
  a missing file; in a container a failing \<open>stat\<close> command is the "File not found"
  return (\<open>None\<close> here) and its output is parsed by \<open>int\<close>.
\<close>

definition size_probe :: "'w os \<Rightarrow> string \<Rightarrow> string \<Rightarrow> 'w \<Rightarrow> (exn + int option) \<times> 'w" where
  "size_probe os container_id file_path w =
     (if container_id = ''local'' then
        (case path_stat_size os w file_path of
           Inl e \<Rightarrow> (Inl e, w)
         | Inr n \<Rightarrow> (Inr (Some (int n)), w))
      else
        (case subprocess_run os w
                (Argv [''docker'', ''exec'', container_id, ''stat'', ''-c'', ''%s'', file_path])
                None of
           (Inl e, w') \<Rightarrow> (Inl e, w')
         | (Inr size_result, w') \<Rightarrow>
             if returncode size_result \<noteq> 0 then (Inr None, w')
             else (case int_of_str (strip (stdout size_result)) of
                     Inl e \<Rightarrow> (Inl e, w')
                   | Inr size_bytes \<Rightarrow> (Inr (Some size_bytes), w'))))"

fun verify_size_loop ::
  "'w os \<Rightarrow> VerificationStep \<Rightarrow> string \<Rightarrow> VerificationResult \<Rightarrow> string list \<Rightarrow> 'w
     \<Rightarrow> (exn + VerificationResult) \<times> 'w" where
  "verify_size_loop os step container_id result [] w =
     (Inr (result\<lparr> passed := True, details := ''Size constraints satisfied'' \<rparr>), w)"
| "verify_size_loop os step container_id result (file_path # rest) w =
     (case size_probe os container_id file_path w of
        (Inl e, w') \<Rightarrow> (Inl e, w')
      | (Inr None, w') \<Rightarrow> (Inr (result\<lparr> details := ''File not found: '' @ file_path \<rparr>), w')
      | (Inr (Some size_bytes), w') \<Rightarrow>
          (let size_mb = (of_int size_bytes :: rat) / (1024 * 1024)
           in if truthy_int (min_size_mb step) \<and> size_mb < of_int (the (min_size_mb step)) then
                (Inr (result\<lparr> details :=
                        file_path @ '': '' @ format_1f size_mb @ ''MB < min '' @
                        str_int (the (min_size_mb step)) @ ''MB'' \<rparr>), w')
              else if truthy_int (max_size_mb step) \<and> of_int (the (max_size_mb step)) < size_mb then
                (Inr (result\<lparr> details :=
                        file_path @ '': '' @ format_1f size_mb @ ''MB > max '' @
                        str_int (the (max_size_mb step)) @ ''MB'' \<rparr>), w')
              else verify_size_loop os step container_id result rest w'))"

definition verify_size ::
  "'w os \<Rightarrow> VerificationStep \<Rightarrow> string \<Rightarrow> VerificationResult \<Rightarrow> 'w
     \<Rightarrow> (exn + VerificationResult) \<times> 'w" where
  "verify_size os step container_id result w =
     verify_size_loop os step container_id result (expected_files step) w"

subsection \<open>\<open>_verify_command\<close> and \<open>_verify_boot\<close>\<close>

text \<open>
  Both run \<open>step.command\<close> with the same two calls of \<open>subprocess.run\<close>.  A command that
  is \<open>None\<close> makes \<open>subprocess.run\<close> raise \<open>TypeError\<close> before any process starts.
\<close>

definition run_command ::
  "'w os \<Rightarrow> string \<Rightarrow> string option \<Rightarrow> int \<Rightarrow> 'w \<Rightarrow> (exn + CompletedProcess) \<times> 'w" where
  "run_command os container_id cmd timeout w =
     (if container_id = ''local'' then
        (case cmd of
           None \<Rightarrow> (Inl (Exception ''TypeError'' (CHR 0x27 # ''NoneType'' @ CHR 0x27 #
                           '' object is not iterable'')), w)
         | Some c \<Rightarrow> subprocess_run os w (Shell c) (Some timeout))
      else
        (case cmd of
           None \<Rightarrow> (Inl (Exception ''TypeError''
                           ''expected str, bytes or os.PathLike object, not NoneType''), w)
         | Some c \<Rightarrow>
             subprocess_run os w (Argv [''docker'', ''exec'', container_id, ''bash'', ''-c'', c])
               (Some timeout)))"

definition verify_command ::
  "'w os \<Rightarrow> RunnerConfig \<Rightarrow> VerificationStep \<Rightarrow> string \<Rightarrow> VerificationResult \<Rightarrow> 'w
     \<Rightarrow> (exn + VerificationResult) \<times> 'w" where
  "verify_command os config step container_id result w =
     (let timeout = int_trunc (of_int (timeout_seconds step) * timeout_multiplier config)
      in case run_command os container_id (command step) timeout w of
           (Inl e, w') \<Rightarrow> (Inl e, w')
         | (Inr cmd_result, w') \<Rightarrow>
             (let output = stdout cmd_result @ stderr cmd_result
              in if truthy_str (expected_output step) then
                   (let p = str_contains output (the (expected_output step))
                    in (Inr (result\<lparr> passed := p,
                                     details := ''Output '' @ (if p then ''contains'' else ''missing'')
                                                @ '' expected string'' \<rparr>), w'))
                 else
                   (Inr (result\<lparr> passed := (returncode cmd_result = 0),
                                 details := ''Command returned '' @ str_int (returncode cmd_result) \<rparr>),
                    w')))"

definition verify_boot ::
  "'w os \<Rightarrow> RunnerConfig \<Rightarrow> VerificationStep \<Rightarrow> string \<Rightarrow> VerificationResult \<Rightarrow> 'w
     \<Rightarrow> (exn + VerificationResult) \<times> 'w" where
  "verify_boot os config step container_id result w =
     (if \<not> qemu_enabled config then
        (Inr (result\<lparr> details := ''QEMU verification disabled'', passed := True \<rparr>), w)
      else
        (let timeout = int_trunc (of_int (timeout_seconds step) * timeout_multiplier config)
         in case run_command os container_id (command step) timeout w of
              (Inl e, w') \<Rightarrow>
                if exn_type e = ''TimeoutExpired'' then
                  (Inr (result\<lparr> passed := False,
                                details := ''Boot timed out after '' @ str_int timeout @ ''s'' \<rparr>), w')
                else (Inl e, w')
            | (Inr qemu_result, w') \<Rightarrow>
                (let output = stdout qemu_result @ stderr qemu_result
                 in if truthy_str (expected_output step) \<and>
                       str_contains output (the (expected_output step)) then
                      (Inr (result\<lparr> passed := True,
                                    details := ''Boot successful: found '' @ CHR 0x27 #
                                               the (expected_output step) @ [CHR 0x27] \<rparr>), w')
                    else
                      (Inr (result\<lparr> passed := False,
                                    details := ''Boot indicator not found in output'' \<rparr>), w'))))"

subsection \<open>\<open>_verify_checksum\<close>\<close>

fun verify_checksum_loop ::
  "'w os \<Rightarrow> VerificationStep \<Rightarrow> string \<Rightarrow> VerificationResult \<Rightarrow> string list \<Rightarrow> 'w
     \<Rightarrow> (exn + VerificationResult) \<times> 'w" where
  "verify_checksum_loop os step container_id result [] w =
     (Inr (result\<lparr> passed := True, details := ''Checksum verified'' \<rparr>), w)"
| "verify_checksum_loop os step container_id result (file_path # rest) w =
     (case subprocess_run os w
             (if container_id = ''local'' then Argv [''sha256sum'', file_path]
              else Argv [''docker'', ''exec'', container_id, ''sha256sum'', file_path]) None of
        (Inl e, w') \<Rightarrow> (Inl e, w')
      | (Inr hash_result, w') \<Rightarrow>
          if returncode hash_result \<noteq> 0 then
            (Inr (result\<lparr> details := ''Failed to hash '' @ file_path \<rparr>), w')
          else
            (case split_first (stdout hash_result) of
               Inl e \<Rightarrow> (Inl e, w')
             | Inr actual_hash \<Rightarrow>
                 if truthy_str (expected_output step) \<and> actual_hash \<noteq> the (expected_output step)
                 then
                   (Inr (result\<lparr> details :=
                           ''Checksum mismatch: '' @ take 16 actual_hash @ ''... != '' @
                           take 16 (the (expected_output step)) @ ''...'' \<rparr>), w')
                 else verify_checksum_loop os step container_id result rest w'))"

definition verify_checksum ::
  "'w os \<Rightarrow> VerificationStep \<Rightarrow> string \<Rightarrow> VerificationResult \<Rightarrow> 'w
     \<Rightarrow> (exn + VerificationResult) \<times> 'w" where
  "verify_checksum os step container_id result w =
     verify_checksum_loop os step container_id result (expected_files step) w"

subsection \<open>\<open>run_verification\<close>\<close>

text \<open>
  The body of the \<open>try\<close>: the chain of comparisons of \<open>step.type\<close>, in the order of
  the code.  The five members are all there are, so the chain has no fall-through.
\<close>

definition run_check ::
  "'w os \<Rightarrow> RunnerConfig \<Rightarrow> VerificationStep \<Rightarrow> string \<Rightarrow> VerificationResult \<Rightarrow> 'w
     \<Rightarrow> (exn + VerificationResult) \<times> 'w" where
  "run_check os config step container_id result w =
     (if VerificationStep.type step = FILE_CHECK then verify_files os step container_id result w
      else if VerificationStep.type step = SIZE_CHECK then verify_size os step container_id result w
      else if VerificationStep.type step = COMMAND_OUTPUT then
        verify_command os config step container_id result w
      else if VerificationStep.type step = BOOT_TEST then
        verify_boot os config step container_id result w
      else verify_checksum os step container_id result w)"

text \<open>
  \<open>initial_result\<close> is the dictionary \<open>result\<close> as \<open>run_verification\<close> first
  builds it.  No check changes \<open>result\<close> before its last statement, so when a check
  raises, the \<open>except\<close> clause updates that first dictionary.
\<close>

definition initial_result :: "VerificationStep \<Rightarrow> VerificationResult" where
  "initial_result step =
     \<lparr> VerificationResult.type = VerificationType_value (VerificationStep.type step),
       VerificationResult.description = VerificationStep.description step,
       passed = False, details = [], error = None, duration_seconds = 0 \<rparr>"

definition run_verification ::
  "'w os \<Rightarrow> RunnerConfig \<Rightarrow> VerificationStep \<Rightarrow> string \<Rightarrow> 'w \<Rightarrow> VerificationResult \<times> 'w" where
  "run_verification os config step container_id w =
     (let result = initial_result step;
          (start_time, w1) = time_time os w;
          (r, w2) = run_check os config step container_id result w1;
          result' = (case r of
                       Inl e \<Rightarrow> result\<lparr> error := Some (exn_message e), passed := False \<rparr>
                     | Inr res \<Rightarrow> res);
          (end_time, w3) = time_time os w2
      in (result'\<lparr> duration_seconds := end_time - start_time \<rparr>, w3))"

subsection \<open>\<open>evaluate_task\<close>\<close>

record TaskResult =
  task_id :: string
  agent_id :: string
  model_name :: string
  success :: bool
  steps_completed :: int
  total_steps_attempted :: int
  start_time :: string
  end_time :: string
  duration_seconds :: rat
  verification_results :: "VerificationResult list"
  artifacts_produced :: "string list"
  logs_path :: "string option"
  errors :: "string list"
  failure_point :: "string option"
  partial_score :: rat

text \<open>
  The loop over \<open>task.verification_steps\<close>, with the three variables it updates:
  \<open>verification_results\<close>, \<open>errors\<close> and \<open>success\<close>.  Every step runs against the
  handle \<open>"local"\<close>.
\<close>

fun evaluate_loop ::
  "'w os \<Rightarrow> RunnerConfig \<Rightarrow> VerificationStep list
     \<Rightarrow> VerificationResult list \<times> string list \<times> bool \<Rightarrow> 'w
     \<Rightarrow> (VerificationResult list \<times> string list \<times> bool) \<times> 'w" where
  "evaluate_loop os config [] acc w = (acc, w)"
| "evaluate_loop os config (step # rest) (results, errs, succ) w =
     (let (result, w') = run_verification os config step ''local'' w
      in evaluate_loop os config rest
           (results @ [result],
            (if \<not> passed result \<and> truthy_str (error result)
             then errs @ [the (error result)] else errs),
            (if \<not> passed result then False else succ)) w')"

definition evaluate_task ::
  "'w os \<Rightarrow> RunnerConfig \<Rightarrow> Task \<Rightarrow> string \<Rightarrow> string \<Rightarrow> 'w \<Rightarrow> TaskResult \<times> 'w" where
  "evaluate_task os config task agent model w =
     (let (t0, w1) = datetime_now os w;
          (start_ts, w2) = time_time os w1;
          ((results, errs, succ), w3) =
             evaluate_loop os config (verification_steps task) ([], [], True) w2;
          (t1, w4) = datetime_now os w3;
          (end_ts, w5) = time_time os w4;
          passed_count = length (filter passed results);
          total_count = length results;
          score = (if total_count > 0 then (of_nat passed_count :: rat) / of_nat total_count
                   else 0)
      in (\<lparr> task_id = Task.id task,
            agent_id = agent,
            model_name = model,
            success = succ,
            steps_completed = int passed_count,
            total_steps_attempted = int total_count,
            start_time = isoformat t0,
            end_time = isoformat t1,
            TaskResult.duration_seconds = end_ts - start_ts,
            verification_results = results,
            artifacts_produced = filter (path_exists os w5) (success_artifacts task),
            logs_path = None,
            errors = errs,
            failure_point = None,
            partial_score = score \<rparr>, w5))"

text \<open>
  The outcomes of the steps of a task, each the outcome of \<open>run_verification\<close> on its
  step and the handle \<open>"local"\<close>, run one after the other from a given state of the
  machine.  This is what "every step is evaluated" means; the theorems compare the
  loop of \<open>evaluate_task\<close> with it.
\<close>

fun run_steps ::
  "'w os \<Rightarrow> RunnerConfig \<Rightarrow> VerificationStep list \<Rightarrow> 'w \<Rightarrow> VerificationResult list" where
  "run_steps os config [] w = []"
| "run_steps os config (step # rest) w =
     fst (run_verification os config step ''local'' w) #
     run_steps os config rest (snd (run_verification os config step ''local'' w))"

section \<open>benchmark\_runner.py: the trace collector\<close>

text \<open>
  \<open>tool_input\<close> is a dictionary the collector stores and never inspects.  The tool's
  response is consulted through \<open>str\<close> only, so \<open>tool_response\<close> holds that string.
\<close>

record ToolCall =
  tool_name :: string
  tool_input :: pydict
  tool_output :: "string option"
  duration_seconds :: rat
  timestamp :: string
  success :: bool
  error :: "string option"

text \<open>The dictionary appended to \<open>errors\<close> by \<open>run_task\<close>.\<close>

record ErrorRecord =
  type :: string
  message :: string
  timestamp :: string

record AgentTrace =
  trace_id :: string
  task_id :: string
  task_prompt :: string
  model :: string
  timestamp :: string
  success :: bool
  total_duration_seconds :: rat
  total_tool_calls :: int
  total_tokens_in :: int
  total_tokens_out :: int
  tool_calls :: "ToolCall list"
  messages :: "pydict list"
  errors :: "ErrorRecord list"
  final_output :: string
  artifacts_produced :: "string list"

record BenchmarkRunner =
  api_key :: "string option"
  model :: string
  working_dir :: string
  trace_dir :: string
  current_trace :: "AgentTrace option"
  tool_start_time :: "rat option"

record HookInput =
  tool_name :: string
  tool_input :: pydict
  tool_response :: string

subsection \<open>The hooks\<close>


definition lower_char :: "char \<Rightarrow> char" where
  "lower_char c =
     (case map_of (zip ''ABCDEFGHIJKLMNOPQRSTUVWXYZ'' ''abcdefghijklmnopqrstuvwxyz'') c of
        Some l \<Rightarrow> l
      | None \<Rightarrow> c)"

text \<open>
  \<open>str.lower\<close>, on the ASCII letters.  No character outside ASCII has one of the letters
  of \<open>error\<close> as its lower case, so this is exact for the test the hook makes.
\<close>

definition lower :: "string \<Rightarrow> string" where
  "lower s = map lower_char s"

definition post_tool_hook ::
  "'w os \<Rightarrow> BenchmarkRunner \<Rightarrow> HookInput \<Rightarrow> 'w \<Rightarrow> BenchmarkRunner \<times> 'w" where
  "post_tool_hook os self input_data w =
     (let (duration, w1) =
            (if truthy_rat (tool_start_time self)
             then (let (t, w') = time_time os w in (t - the (tool_start_time self), w'))
             else (0, w))
      in case current_trace self of
           None \<Rightarrow> (self, w1)
         | Some trace \<Rightarrow>
             (let (now, w2) = datetime_now os w1;
                  call = \<lparr> ToolCall.tool_name = HookInput.tool_name input_data,
                           ToolCall.tool_input = HookInput.tool_input input_data,
                           tool_output = Some (take 5000 (tool_response input_data)),
                           ToolCall.duration_seconds = round2 duration,
                           ToolCall.timestamp = isoformat now,
                           ToolCall.success =
                             (\<not> str_contains (lower (tool_response input_data)) ''error''),
                           ToolCall.error = None \<rparr>
              in (self\<lparr> current_trace :=
                           Some (trace\<lparr> tool_calls := tool_calls trace @ [call],
                                        total_tool_calls := total_tool_calls trace + 1 \<rparr>) \<rparr>,
                  w2)))"

subsection \<open>Messages\<close>

text \<open>
  The messages of the agent runtime.  A user message carries \<open>str(message.content)\<close>,
  a message of any other class its own \<open>str\<close>; a content block that is neither text
  nor a tool use is \<open>OtherBlock\<close>.
\<close>

datatype ContentBlock = TextBlock string | ToolUseBlock string pydict | OtherBlock

datatype SdkMessage = AssistantMessage "ContentBlock list" | UserMessage string | OtherMessage string

fun serialize_block :: "ContentBlock \<Rightarrow> pyval list" where
  "serialize_block (TextBlock t) = [PDict [(''type'', PStr ''text''), (''text'', PStr t)]]"
| "serialize_block (ToolUseBlock n i) =
     [PDict [(''type'', PStr ''tool_use''), (''name'', PStr n), (''input'', PDict i)]]"
| "serialize_block OtherBlock = []"

fun serialize_message :: "SdkMessage \<Rightarrow> pydict" where
  "serialize_message (AssistantMessage content) =
     [(''role'', PStr ''assistant''), (''content'', PList (concat (map serialize_block content)))]"
| "serialize_message (UserMessage c) = [(''role'', PStr ''user''), (''content'', PStr c)]"
| "serialize_message (OtherMessage m) = [(''role'', PStr ''unknown''), (''content'', PStr m)]"

text \<open>
  The inner loop of \<open>_extract_final_output\<close> over the blocks of one message: the text
  of the first block of type text, cut to 2000 characters, or \<open>None\<close> when the loop
  ends without returning.  The outer loop visits the messages last to first.
\<close>

fun first_text :: "pyval list \<Rightarrow> exn + string option" where
  "first_text [] = Inr None"
| "first_text (block # rest) =
     and_then (as_dict block) (\<lambda>b.
       if map_of b ''type'' = Some (PStr ''text'')
       then and_then (as_str (get_default b ''text'' (PStr []))) (\<lambda>t. Inr (Some (take 2000 t)))
       else first_text rest)"

fun extract_loop :: "pydict list \<Rightarrow> exn + string" where
  "extract_loop [] = Inr []"
| "extract_loop (msg # rest) =
     (if map_of msg ''role'' = Some (PStr ''assistant'') then
        (case get_default msg ''content'' (PList []) of
           PList blocks \<Rightarrow>
             and_then (first_text blocks) (\<lambda>r.
               case r of Some t \<Rightarrow> Inr t | None \<Rightarrow> extract_loop rest)
         | _ \<Rightarrow> Inl (ill_typed ''list''))
      else extract_loop rest)"

definition extract_final_output :: "pydict list \<Rightarrow> exn + string" where
  "extract_final_output msgs = extract_loop (rev msgs)"

subsection \<open>\<open>run_task\<close>\<close>







subsection \<open>The text blocks of the agent's messages\<close>

text \<open>
  Two notions used to state what \<open>_extract_final_output\<close> returns: the texts of the
  text blocks of a message, in order (none for a message that is not from the
  assistant), and the reading of "the most recent assistant text block" as the last
  text block of the whole sequence.
\<close>

fun block_texts :: "ContentBlock list \<Rightarrow> string list" where
  "block_texts [] = []"
| "block_texts (TextBlock t # rest) = t # block_texts rest"
| "block_texts (b # rest) = block_texts rest"

fun message_texts :: "SdkMessage \<Rightarrow> string list" where
  "message_texts (AssistantMessage content) = block_texts content"
| "message_texts m = []"

definition most_recent_text_block :: "SdkMessage list \<Rightarrow> string" where
  "most_recent_text_block ms =
     (case concat (map message_texts ms) of
        [] \<Rightarrow> []
      | t # ts \<Rightarrow> take 2000 (last (t # ts)))"

subsection \<open>What the hooks keep of a trace\<close>


section \<open>Concrete inputs\<close>

text \<open>
  The defaults of \<open>RunnerConfig\<close>, and a small machine on which the definitions can be
  run: its state is a counter that every reading of the clock advances, three files
  \<open>a\<close>, \<open>b\<close> and \<open>c\<close> of one megabyte each and an empty file \<open>e\<close> exist,
  no program can be started, and a file can be written in the directory \<open>traces\<close>,
  which has no directory below it, and nowhere else.
\<close>

definition default_config :: RunnerConfig where
  "default_config =
     \<lparr> docker_enabled = True, qemu_enabled = True, work_dir = ''/tmp/llm-builds-linux'',
       timeout_multiplier = 1, verbose = True, save_logs = True,
       log_dir = ''/tmp/llm-builds-linux/logs'' \<rparr>"

definition some_day :: datetime where
  "some_day =
     \<lparr> year = 2025, month = 1, day = 2, hour = 3, minute = 4, second = 5, microsecond = 0 \<rparr>"

definition example_os :: "nat os" where
  "example_os =
     \<lparr> time_time = (\<lambda>w. (of_nat w, Suc w)),
       datetime_now = (\<lambda>w. (some_day, w)),
       path_exists = (\<lambda>w p. p \<in> set [''a'', ''b'', ''c'', ''e'']),
       path_stat_size = (\<lambda>w p. if p \<in> set [''a'', ''b'', ''c''] then Inr 1048576
                               else if p = ''e'' then Inr 0
                               else Inl (Exception ''FileNotFoundError''
                                           ''[Errno 2] No such file or directory'')),
       subprocess_run = (\<lambda>w a t. (Inl (Exception ''FileNotFoundError''
                                           ''[Errno 2] No such file or directory''), w)),
       open_write = (\<lambda>w p.
          (if prefix ''traces/'' p \<and> CHR ''/'' \<notin> set (drop 7 p) then None
           else Some (Exception ''FileNotFoundError''
                        (''[Errno 2] No such file or directory: '' @ str_repr p)), w)) \<rparr>"

definition file_step :: "string \<Rightarrow> VerificationStep" where
  "file_step f =
     \<lparr> VerificationStep.type = FILE_CHECK, VerificationStep.description = ''exists'',
       command = None, expected_output = None, expected_files = [f],
       max_size_mb = None, min_size_mb = None, timeout_seconds = 300 \<rparr>"

definition example_task :: "VerificationStep list \<Rightarrow> Task" where
  "example_task steps =
     \<lparr> Task.id = ''t'', name = ''n'', Task.description = ''d'', category = DEBUGGING,
       difficulty = EASY, instructions = ''i'', expected_steps = 1, prerequisites = [],
       base_image = ''ubuntu:22.04'', required_packages = [], required_disk_gb = 20,
       required_ram_gb = 4, verification_steps = steps, success_artifacts = [''a'', ''z''],
       time_limit_minutes = 120, expected_build_minutes = 30, tags = [], reference_docs = [],
       common_failure_points = [] \<rparr>"

text \<open>
  A size check on some files, and a machine on which every program outlives its timeout:
  \<open>subprocess.run\<close> raises \<open>TimeoutExpired\<close> with the message Python gives it.
\<close>

definition size_step :: "string list \<Rightarrow> int option \<Rightarrow> int option \<Rightarrow> VerificationStep" where
  "size_step fs lo hi =
     \<lparr> VerificationStep.type = SIZE_CHECK, VerificationStep.description = ''size'',
       command = None, expected_output = None, expected_files = fs,
       max_size_mb = hi, min_size_mb = lo, timeout_seconds = 300 \<rparr>"

definition timeout_os :: "nat os" where
  "timeout_os =
     \<lparr> time_time = (\<lambda>w. (of_nat w, Suc w)),
       datetime_now = (\<lambda>w. (some_day, w)),
       path_exists = (\<lambda>w p. False),
       path_stat_size = (\<lambda>w p. Inl (Exception ''FileNotFoundError''
                                       ''[Errno 2] No such file or directory'')),
       subprocess_run = (\<lambda>w a t.
          (Inl (Exception ''TimeoutExpired''
                  (''Command '' @ [CHR 0x27] @ (case a of Shell c \<Rightarrow> c | Argv xs \<Rightarrow> list_repr xs) @
                   [CHR 0x27] @ '' timed out after '' @
                   (case t of Some n \<Rightarrow> str_int n | None \<Rightarrow> ''None'') @ '' seconds'')),
           Suc w)),
       open_write = (\<lambda>w p. (None, w)) \<rparr>"

definition sleep_step :: "VerificationType \<Rightarrow> VerificationStep" where
  "sleep_step ty =
     \<lparr> VerificationStep.type = ty, VerificationStep.description = ''sleep'',
       command = Some ''sleep 10'', expected_output = Some ''done'', expected_files = [],
       max_size_mb = None, min_size_mb = None, timeout_seconds = 1 \<rparr>"

text \<open>A collector in the middle of a run, and the hook input of a shell command.\<close>

definition example_trace :: AgentTrace where
  "example_trace =
     \<lparr> trace_id = ''t-20250102-030405'', AgentTrace.task_id = ''t'', task_prompt = ''build'',
       AgentTrace.model = ''claude-sonnet-4-20250514'',
       AgentTrace.timestamp = ''2025-01-02T03:04:05'',
       AgentTrace.success = False, total_duration_seconds = 0,
       total_tool_calls = 0, total_tokens_in = 0, total_tokens_out = 0,
       tool_calls = [], messages = [], AgentTrace.errors = [], final_output = [],
       AgentTrace.artifacts_produced = [] \<rparr>"

definition example_runner :: "AgentTrace option \<Rightarrow> BenchmarkRunner" where
  "example_runner tr =
     \<lparr> api_key = None, BenchmarkRunner.model = ''claude-sonnet-4-20250514'',
       working_dir = ''/work'', trace_dir = ''traces'', current_trace = tr,
       tool_start_time = None \<rparr>"

definition bash_call :: "string \<Rightarrow> string \<Rightarrow> HookInput" where
  "bash_call cmd response =
     \<lparr> HookInput.tool_name = ''Bash'', HookInput.tool_input = [(''command'', PStr cmd)],
       tool_response = response \<rparr>"

section \<open>Serialising a task and reading it back\<close>

lemma traverse_as_str: "traverse as_str (map PStr xs) = Inr xs"
  by (induction xs) (simp_all add: and_then_def)

lemma as_str_list_val: "as_str_list (str_list_val xs) = Inr xs"
  by (simp add: str_list_val_def traverse_as_str)

lemma as_opt_str_val: "as_opt_str (opt_str_val x) = Inr x"
  by (cases x) (simp_all add: opt_str_val_def)

lemma as_opt_int_val: "as_opt_int (opt_int_val x) = Inr x"
  by (cases x) (simp_all add: opt_int_val_def)

lemma VerificationType_of_value: "VerificationType_of (PStr (VerificationType_value t)) = Inr t"
  by (cases t) (simp_all add: VerificationType_of_def enum_lookup_def)

lemma Category_of_value: "Category_of (PStr (Category_value c)) = Inr c"
  by (cases c) (simp_all add: Category_of_def enum_lookup_def)

lemma Difficulty_of_value: "Difficulty_of (PStr (Difficulty_value d)) = Inr d"
  by (cases d) (simp_all add: Difficulty_of_def enum_lookup_def)

lemma step_from_to_dict: "step_from_dict (step_to_dict v) = Inr v"
  by (simp add: step_from_dict_def step_to_dict_def getitem_def get_default_def and_then_def
      VerificationType_of_value as_opt_str_val as_opt_int_val as_str_list_val)

lemma traverse_as_dict_steps:
  "traverse as_dict (map (PDict \<circ> step_to_dict) vs) = Inr (map step_to_dict vs)"
  by (induction vs) (simp_all add: and_then_def)

lemma traverse_step_from_dict: "traverse step_from_dict (map step_to_dict vs) = Inr vs"
  by (induction vs) (simp_all add: and_then_def step_from_to_dict)

text \<open>
  Claim C9.  For every task, \<open>Task.from_dict(task.to_dict())\<close> returns, without raising,
  a task equal to the original in every field, the verification steps with all their
  fields included.
\<close>

theorem from_dict_to_dict: "from_dict (to_dict t) = Inr t"
  by (simp add: from_dict_def to_dict_def getitem_def get_default_def and_then_def
      traverse_as_dict_steps traverse_step_from_dict as_str_list_val
      Category_of_value Difficulty_of_value)

theorem from_dict_to_dict_witness:
  "from_dict (to_dict (example_task [file_step ''a''])) = Inr (example_task [file_step ''a''])"
  using from_dict_to_dict [of "example_task [file_step ''a'']"] by simp

section \<open>Scoring\<close>

lemma evaluate_loop_length:
  "length (fst (fst (evaluate_loop os config steps (rs, es, s) w))) = length rs + length steps"
  by (induction steps arbitrary: rs es s w) (simp_all add: Let_def split: prod.splits)

lemma evaluate_loop_success:
  "evaluate_loop os config steps (rs, es, s) w = ((rs', es', s'), w') \<Longrightarrow>
   s = list_all passed rs \<Longrightarrow> s' = list_all passed rs'"
proof (induction steps arbitrary: rs es s w)
  case Nil
  then show ?case by auto
next
  case (Cons step steps)
  obtain r w1 where rv: "run_verification os config step ''local'' w = (r, w1)"
    by (cases "run_verification os config step ''local'' w")
  let ?es = "if \<not> passed r \<and> truthy_str (VerificationResult.error r)
             then es @ [the (VerificationResult.error r)] else es"
  let ?s = "if \<not> passed r then False else s"
  from Cons.prems(1) have run:
    "evaluate_loop os config steps (rs @ [r], ?es, ?s) w1 = ((rs', es', s'), w')"
    by (simp add: rv)
  have "?s = list_all passed (rs @ [r])"
    using Cons.prems(2) by simp
  with run show ?case by (rule Cons.IH)
qed

lemma evaluate_task_success:
  "TaskResult.success (fst (evaluate_task os config task agent mdl w)) =
     list_all passed (verification_results (fst (evaluate_task os config task agent mdl w)))"
proof -
  obtain t0 w1 where a: "datetime_now os w = (t0, w1)" by (cases "datetime_now os w")
  obtain ts w2 where b: "time_time os w1 = (ts, w2)" by (cases "time_time os w1")
  obtain rs es s w3 where c:
    "evaluate_loop os config (verification_steps task) ([], [], True) w2 = ((rs, es, s), w3)"
    by (metis prod.exhaust)
  have "s = list_all passed rs"
    using c by (rule evaluate_loop_success) simp
  then show ?thesis
    by (simp add: evaluate_task_def a b c Let_def split: prod.splits)
qed

text \<open>
  Claim C1, as the code has it.  For every task whose list of verification steps is empty,
  \<open>evaluate_task\<close> returns a result with no verification results, \<open>partial_score\<close> 0
  and \<open>success\<close> true: \<open>success\<close> starts true and only a failed step makes it false.
\<close>

theorem empty_task_succeeds:
  "verification_steps task = [] \<Longrightarrow>
     TaskResult.success (fst (evaluate_task os config task agent mdl w)) \<and>
     partial_score (fst (evaluate_task os config task agent mdl w)) = 0 \<and>
     verification_results (fst (evaluate_task os config task agent mdl w)) = []"
  by (simp add: evaluate_task_def Let_def split: prod.splits)

theorem empty_task_succeeds_witness:
  "verification_steps (example_task []) = [] \<and>
   TaskResult.success
     (fst (evaluate_task example_os default_config (example_task []) ''agent'' ''m'' 0)) \<and>
   partial_score
     (fst (evaluate_task example_os default_config (example_task []) ''agent'' ''m'' 0)) = 0"
  using empty_task_succeeds [of "example_task []" example_os default_config "''agent''" "''m''" 0]
  by (simp add: example_task_def)

text \<open>The claim as stated asks for \<open>success = false\<close>; on a task without steps it is true.\<close>

theorem empty_task_success_counterexample:
  "TaskResult.success
     (fst (evaluate_task example_os default_config (example_task []) ''agent'' ''m'' 0)) = True"
  by (simp add: evaluate_task_def example_task_def example_os_def)

text \<open>
  Claim C5.  For every task, the result of \<open>evaluate_task\<close> holds one outcome per
  verification step, and with \<open>k\<close> the number of outcomes that passed and \<open>n\<close> their
  number, \<open>steps_completed\<close> is \<open>k\<close>, \<open>total_steps_attempted\<close> is \<open>n\<close>, and
  \<open>partial_score\<close> is \<open>k / n\<close>, or 0 when \<open>n\<close> is 0; it lies between 0 and 1.  (The
  quotient is the exact one; the code's float is its rounding.)
\<close>

theorem partial_score_fraction:
  "(let r = fst (evaluate_task os config task agent mdl w);
        n = length (verification_results r);
        k = length (filter passed (verification_results r))
    in n = length (verification_steps task) \<and>
       steps_completed r = int k \<and> total_steps_attempted r = int n \<and>
       partial_score r = (if n = 0 then 0 else of_nat k / of_nat n) \<and>
       0 \<le> partial_score r \<and> partial_score r \<le> 1)"
proof -
  obtain t0 w1 where a: "datetime_now os w = (t0, w1)" by (cases "datetime_now os w")
  obtain ts w2 where b: "time_time os w1 = (ts, w2)" by (cases "time_time os w1")
  obtain rs es s w3 where c:
    "evaluate_loop os config (verification_steps task) ([], [], True) w2 = ((rs, es, s), w3)"
    by (metis prod.exhaust)
  obtain t1 w4 where d: "datetime_now os w3 = (t1, w4)" by (cases "datetime_now os w3")
  obtain te w5 where e: "time_time os w4 = (te, w5)" by (cases "time_time os w4")
  have len: "length rs = length (verification_steps task)"
    using evaluate_loop_length [of os config "verification_steps task" "[]" "[]" True w2] c
    by simp
  have le: "length (filter passed rs) \<le> length rs" by simp
  have frac: "rs \<noteq> [] \<Longrightarrow>
      (of_nat (length (filter passed rs)) :: rat) / of_nat (length rs) \<le> 1"
    using le by (simp add: divide_le_eq)
  show ?thesis
    using len frac by (simp add: evaluate_task_def a b c d e Let_def)
qed

text \<open>Three steps of four pass: the score is 3/4.\<close>

theorem partial_score_fraction_witness:
  "(let r = fst (evaluate_task example_os default_config
                  (example_task [file_step ''a'', file_step ''b'', file_step ''z'', file_step ''c''])
                  ''agent'' ''m'' 0)
    in map passed (verification_results r) = [True, True, False, True] \<and>
       steps_completed r = 3 \<and> total_steps_attempted r = 4 \<and> partial_score r = 3 / 4 \<and>
       \<not> TaskResult.success r)"
  using partial_score_fraction [of example_os default_config
          "example_task [file_step ''a'', file_step ''b'', file_step ''z'', file_step ''c'']"
          "''agent''" "''m''" 0]
  by (simp add: Let_def evaluate_task_def example_task_def example_os_def file_step_def
      run_verification_def initial_result_def run_check_def verify_files_def)

section \<open>Exceptions of a check\<close>

lemma verify_files_keeps:
  "verify_files os step cid res w = (Inr r, w') \<Longrightarrow>
     VerificationResult.type r = VerificationResult.type res \<and>
     VerificationResult.description r = VerificationResult.description res"
  by (auto simp add: verify_files_def split: prod.splits sum.splits)

lemma verify_size_loop_keeps:
  "verify_size_loop os step cid res fs w = (Inr r, w') \<Longrightarrow>
     VerificationResult.type r = VerificationResult.type res \<and>
     VerificationResult.description r = VerificationResult.description res"
  by (induction fs arbitrary: w)
     (auto simp add: Let_def split: prod.splits sum.splits option.splits if_splits)

lemma verify_checksum_loop_keeps:
  "verify_checksum_loop os step cid res fs w = (Inr r, w') \<Longrightarrow>
     VerificationResult.type r = VerificationResult.type res \<and>
     VerificationResult.description r = VerificationResult.description res"
  by (induction fs arbitrary: w)
     (auto simp add: Let_def split: prod.splits sum.splits option.splits if_splits)

lemma verify_command_keeps:
  "verify_command os config step cid res w = (Inr r, w') \<Longrightarrow>
     VerificationResult.type r = VerificationResult.type res \<and>
     VerificationResult.description r = VerificationResult.description res"
  by (auto simp add: verify_command_def Let_def split: prod.splits sum.splits if_splits)

lemma verify_boot_keeps:
  "verify_boot os config step cid res w = (Inr r, w') \<Longrightarrow>
     VerificationResult.type r = VerificationResult.type res \<and>
     VerificationResult.description r = VerificationResult.description res"
  by (auto simp add: verify_boot_def Let_def split: prod.splits sum.splits if_splits)

lemma run_check_keeps:
  "run_check os config step cid res w = (Inr r, w') \<Longrightarrow>
     VerificationResult.type r = VerificationResult.type res \<and>
     VerificationResult.description r = VerificationResult.description res"
  unfolding run_check_def verify_size_def verify_checksum_def
  by (metis verify_files_keeps verify_size_loop_keeps verify_checksum_loop_keeps
      verify_command_keeps verify_boot_keeps)

lemma run_verification_labels:
  "VerificationResult.type (fst (run_verification os config step cid w)) =
     VerificationType_value (VerificationStep.type step) \<and>
   VerificationResult.description (fst (run_verification os config step cid w)) =
     VerificationStep.description step"
proof -
  obtain t0 w1 where a: "time_time os w = (t0, w1)" by (cases "time_time os w")
  obtain r w2 where b: "run_check os config step cid (initial_result step) w1 = (r, w2)"
    by (cases "run_check os config step cid (initial_result step) w1")
  obtain t1 w3 where c: "time_time os w2 = (t1, w3)" by (cases "time_time os w2")
  have eq: "fst (run_verification os config step cid w) =
      (case r of
         Inl e \<Rightarrow> (initial_result step)\<lparr> VerificationResult.error := Some (exn_message e),
                                           passed := False \<rparr>
       | Inr res \<Rightarrow> res)\<lparr> VerificationResult.duration_seconds := t1 - t0 \<rparr>"
    by (simp add: run_verification_def Let_def a b c)
  show ?thesis
  proof (cases r)
    case (Inl e)
    then show ?thesis by (simp add: eq initial_result_def)
  next
    case (Inr res)
    with b have "run_check os config step cid (initial_result step) w1 = (Inr res, w2)"
      by simp
    then have "VerificationResult.type res = VerificationResult.type (initial_result step) \<and>
       VerificationResult.description res = VerificationResult.description (initial_result step)"
      by (rule run_check_keeps)
    with Inr show ?thesis by (simp add: eq initial_result_def)
  qed
qed

lemma evaluate_loop_labels:
  "map VerificationResult.type (fst (fst (evaluate_loop os config steps (rs, es, s) w))) =
     map VerificationResult.type rs @ map (VerificationType_value \<circ> VerificationStep.type) steps \<and>
   map VerificationResult.description (fst (fst (evaluate_loop os config steps (rs, es, s) w))) =
     map VerificationResult.description rs @ map VerificationStep.description steps"
proof (induction steps arbitrary: rs es s w)
  case Nil
  show ?case by simp
next
  case (Cons step steps)
  obtain r w1 where rv: "run_verification os config step ''local'' w = (r, w1)"
    by (cases "run_verification os config step ''local'' w")
  have lab: "VerificationResult.type r = VerificationType_value (VerificationStep.type step) \<and>
     VerificationResult.description r = VerificationStep.description step"
    using run_verification_labels [of os config step "''local''" w] rv by simp
  show ?case
    by (simp add: rv Cons.IH lab)
qed

lemma evaluate_loop_run_steps:
  "fst (evaluate_loop os config steps (rs, es, s) w) =
     (rs @ run_steps os config steps w,
      es @ map (the \<circ> VerificationResult.error)
             (filter (\<lambda>r. \<not> passed r \<and> truthy_str (VerificationResult.error r))
                (run_steps os config steps w)),
      s \<and> list_all passed (run_steps os config steps w))"
proof (induction steps arbitrary: rs es s w)
  case Nil
  show ?case by simp
next
  case (Cons step steps)
  obtain r w1 where rv: "run_verification os config step ''local'' w = (r, w1)"
    by (cases "run_verification os config step ''local'' w")
  show ?case
    by (cases "passed r") (simp_all add: rv Cons.IH)
qed

lemma run_steps_nth:
  "i < length steps \<Longrightarrow>
   \<exists>w'. run_steps os config steps w ! i = fst (run_verification os config (steps ! i) ''local'' w')"
proof (induction steps arbitrary: i w)
  case Nil
  then show ?case by simp
next
  case (Cons step steps)
  show ?case
  proof (cases i)
    case 0
    then show ?thesis by auto
  next
    case (Suc j)
    with Cons.prems have "j < length steps" by simp
    from Cons.IH [OF this] Suc show ?thesis by simp
  qed
qed

text \<open>
  Claim C4.  For every verification step, of whichever of the five kinds, and every
  environment handle: if the check raises, \<open>run_verification\<close> returns an outcome with
  \<open>passed\<close> false and \<open>error\<close> the message of the exception; \<open>run_verification\<close>
  always returns an outcome.  And no step, failing or raising, stops the steps after
  it: the outcomes \<open>evaluate_task\<close> returns are, in order, the outcome of
  \<open>run_verification\<close> on each step of the task, every one run in the state the
  step before it left; the \<open>errors\<close> of the result are the error messages of the
  failed outcomes that have one; and each outcome has the type and the description of
  its step.
\<close>

theorem check_exception_contained:
  "(\<forall>e w'. run_check os config step cid (initial_result step) (snd (time_time os w)) = (Inl e, w')
      \<longrightarrow> \<not> passed (fst (run_verification os config step cid w)) \<and>
          VerificationResult.error (fst (run_verification os config step cid w)) =
            Some (exn_message e)) \<and>
   verification_results (fst (evaluate_task os config task agent mdl w0)) =
     run_steps os config (verification_steps task)
       (snd (time_time os (snd (datetime_now os w0)))) \<and>
   (\<forall>i<length (verification_steps task). \<exists>w'.
      verification_results (fst (evaluate_task os config task agent mdl w0)) ! i =
        fst (run_verification os config (verification_steps task ! i) ''local'' w')) \<and>
   TaskResult.errors (fst (evaluate_task os config task agent mdl w0)) =
     map (the \<circ> VerificationResult.error)
       (filter (\<lambda>r. \<not> passed r \<and> truthy_str (VerificationResult.error r))
          (verification_results (fst (evaluate_task os config task agent mdl w0)))) \<and>
   map VerificationResult.type
     (verification_results (fst (evaluate_task os config task agent mdl w0))) =
     map (VerificationType_value \<circ> VerificationStep.type) (verification_steps task) \<and>
   map VerificationResult.description
     (verification_results (fst (evaluate_task os config task agent mdl w0))) =
     map VerificationStep.description (verification_steps task)"
proof -
  have one: "\<forall>e w'. run_check os config step cid (initial_result step) (snd (time_time os w)) = (Inl e, w')
      \<longrightarrow> \<not> passed (fst (run_verification os config step cid w)) \<and>
          VerificationResult.error (fst (run_verification os config step cid w)) =
            Some (exn_message e)"
    by (auto simp add: run_verification_def Let_def split: prod.splits)
  obtain t0 w1 where a: "datetime_now os w0 = (t0, w1)" by (cases "datetime_now os w0")
  obtain ts w2 where b: "time_time os w1 = (ts, w2)" by (cases "time_time os w1")
  obtain rs es s w3 where c:
    "evaluate_loop os config (verification_steps task) ([], [], True) w2 = ((rs, es, s), w3)"
    by (metis prod.exhaust)
  have res: "verification_results (fst (evaluate_task os config task agent mdl w0)) = rs"
    by (simp add: evaluate_task_def a b c Let_def split: prod.splits)
  have errs: "TaskResult.errors (fst (evaluate_task os config task agent mdl w0)) = es"
    by (simp add: evaluate_task_def a b c Let_def split: prod.splits)
  have loop: "rs = run_steps os config (verification_steps task) w2 \<and>
      es = map (the \<circ> VerificationResult.error)
             (filter (\<lambda>r. \<not> passed r \<and> truthy_str (VerificationResult.error r)) rs)"
    using evaluate_loop_run_steps [of os config "verification_steps task" "[]" "[]" True w2] c
    by simp
  have w2: "snd (time_time os (snd (datetime_now os w0))) = w2"
    by (simp add: a b)
  have nth: "\<forall>i<length (verification_steps task). \<exists>w'.
      rs ! i = fst (run_verification os config (verification_steps task ! i) ''local'' w')"
    using loop run_steps_nth [of _ "verification_steps task" os config w2] by simp
  have all: "map VerificationResult.type rs =
       map (VerificationType_value \<circ> VerificationStep.type) (verification_steps task) \<and>
     map VerificationResult.description rs =
       map VerificationStep.description (verification_steps task)"
    using evaluate_loop_labels [of os config "verification_steps task" "[]" "[]" True w2] c
    by simp
  show ?thesis
    unfolding res errs w2 using one loop nth all by simp
qed

text \<open>
  A size check on a missing file raises \<open>FileNotFoundError\<close>; the file check after it
  still runs, in the state the size check left, and passes.
\<close>

theorem check_exception_contained_witness:
  "(let r = fst (evaluate_task example_os default_config
                  (example_task [size_step [''z''] None None, file_step ''a''])
                  ''agent'' ''m'' 0)
    in fst (run_check example_os default_config (size_step [''z''] None None) ''local''
              (initial_result (size_step [''z''] None None)) (snd (time_time example_os 5))) =
         Inl (Exception ''FileNotFoundError'' ''[Errno 2] No such file or directory'') \<and>
       \<not> passed (fst (run_verification example_os default_config
                        (size_step [''z''] None None) ''local'' 5)) \<and>
       VerificationResult.error (fst (run_verification example_os default_config
                        (size_step [''z''] None None) ''local'' 5)) =
         Some ''[Errno 2] No such file or directory'' \<and>
       verification_results r =
         [fst (run_verification example_os default_config (size_step [''z''] None None)
                 ''local'' 1),
          fst (run_verification example_os default_config (file_step ''a'') ''local'' 3)] \<and>
       map passed (verification_results r) = [False, True] \<and>
       map VerificationResult.description (verification_results r) = [''size'', ''exists''] \<and>
       TaskResult.errors r = [''[Errno 2] No such file or directory''])"
  using check_exception_contained [of example_os default_config "size_step [''z''] None None"
          "''local''" 5 "example_task [size_step [''z''] None None, file_step ''a'']"
          "''agent''" "''m''" 0]
  by (simp add: Let_def evaluate_task_def example_task_def example_os_def file_step_def
      size_step_def run_verification_def initial_result_def run_check_def verify_files_def
      verify_size_def size_probe_def truthy_str_def)

text \<open>
  Claim C2, on the code.  A \<open>COMMAND_OUTPUT\<close> step whose command outlives its timeout
  of one second: \<open>_verify_command\<close> does not catch \<open>TimeoutExpired\<close>, so the outcome
  comes from the \<open>except\<close> clause of \<open>run_verification\<close>.  It has \<open>passed\<close> false
  and nothing raises, but \<open>details\<close> is empty: the timeout is named in \<open>error\<close>
  only.  The same step as a \<open>BOOT_TEST\<close> goes through the handler of \<open>_verify_boot\<close>
  and does name the timeout in \<open>details\<close>.
\<close>

theorem command_timeout_details_empty:
  "(let r = fst (run_verification timeout_os default_config (sleep_step COMMAND_OUTPUT) ''local'' 0);
        b = fst (run_verification timeout_os default_config (sleep_step BOOT_TEST) ''local'' 0)
    in \<not> passed r \<and> details r = [] \<and>
       VerificationResult.error r = Some ''Command 'sleep 10' timed out after 1 seconds'' \<and>
       \<not> passed b \<and> details b = ''Boot timed out after 1s'' \<and> VerificationResult.error b = None)"
  by (simp add: Let_def timeout_os_def default_config_def sleep_step_def run_verification_def
      initial_result_def run_check_def verify_command_def verify_boot_def run_command_def
      int_trunc_def str_int_def digits_of_nat.simps digit_char_def truthy_str_def)

section \<open>Size checks\<close>

text \<open>
  The loop of \<open>_verify_size\<close> consults the step for its two bounds only, and a bound
  only when it is true as a Python value.
\<close>

lemma verify_size_loop_bounds_cong:
  assumes "truthy_int (min_size_mb s1) = truthy_int (min_size_mb s2)"
    and "truthy_int (min_size_mb s2) \<Longrightarrow> min_size_mb s1 = min_size_mb s2"
    and "truthy_int (max_size_mb s1) = truthy_int (max_size_mb s2)"
    and "truthy_int (max_size_mb s2) \<Longrightarrow> max_size_mb s1 = max_size_mb s2"
  shows "verify_size_loop os s1 cid res fs w = verify_size_loop os s2 cid res fs w"
proof (induction fs arbitrary: w)
  case Nil
  show ?case by simp
next
  case (Cons f fs)
  show ?case
    using assms
    by (auto simp add: Let_def Cons.IH split: prod.splits sum.splits option.splits)
qed

lemma verify_size_loop_world:
  "\<forall>f\<in>set fs. snd (size_probe os cid f w) = w \<Longrightarrow>
   snd (verify_size_loop os step cid res fs w) = w"
proof (induction fs)
  case Nil
  show ?case by simp
next
  case (Cons f fs)
  obtain p where p: "size_probe os cid f w = (p, w)"
    using Cons.prems by (cases "size_probe os cid f w") simp
  from Cons have ih: "snd (verify_size_loop os step cid res fs w) = w" by simp
  show ?case
    by (simp add: p ih Let_def split: sum.splits option.splits)
qed

lemma verify_size_loop_passed:
  assumes "\<forall>f\<in>set fs. snd (size_probe os cid f w) = w"
    and "\<not> passed res"
    and "fst (verify_size_loop os step cid res fs w) = Inr r"
    and "passed r"
  shows "\<forall>f\<in>set fs. \<exists>s. fst (size_probe os cid f w) = Inr (Some s) \<and>
           \<not> (truthy_int (min_size_mb step) \<and>
              (of_int s :: rat) / (1024 * 1024) < of_int (the (min_size_mb step))) \<and>
           \<not> (truthy_int (max_size_mb step) \<and>
              of_int (the (max_size_mb step)) < (of_int s :: rat) / (1024 * 1024))"
  using assms
proof (induction fs)
  case Nil
  show ?case by simp
next
  case (Cons f fs)
  obtain p where p: "size_probe os cid f w = (p, w)"
    using Cons.prems(1) by (cases "size_probe os cid f w") simp
  from Cons.prems(2,3,4) p obtain s where s: "p = Inr (Some s)"
    and ok: "\<not> (truthy_int (min_size_mb step) \<and>
              (of_int s :: rat) / (1024 * 1024) < of_int (the (min_size_mb step)))"
            "\<not> (truthy_int (max_size_mb step) \<and>
              of_int (the (max_size_mb step)) < (of_int s :: rat) / (1024 * 1024))"
    and rest: "fst (verify_size_loop os step cid res fs w) = Inr r"
    by (auto simp add: Let_def split: sum.splits option.splits if_splits)
  have "\<forall>f\<in>set fs. \<exists>s. fst (size_probe os cid f w) = Inr (Some s) \<and>
           \<not> (truthy_int (min_size_mb step) \<and>
              (of_int s :: rat) / (1024 * 1024) < of_int (the (min_size_mb step))) \<and>
           \<not> (truthy_int (max_size_mb step) \<and>
              of_int (the (max_size_mb step)) < (of_int s :: rat) / (1024 * 1024))"
    using Cons.IH Cons.prems(1,2,4) rest by simp
  then show ?case using p s ok by simp
qed

lemma verify_size_loop_complete:
  assumes "\<forall>f\<in>set fs. \<exists>s. size_probe os cid f w = (Inr (Some s), w) \<and>
           \<not> (truthy_int (min_size_mb step) \<and>
              (of_int s :: rat) / (1024 * 1024) < of_int (the (min_size_mb step))) \<and>
           \<not> (truthy_int (max_size_mb step) \<and>
              of_int (the (max_size_mb step)) < (of_int s :: rat) / (1024 * 1024))"
  shows "verify_size_loop os step cid res fs w =
           (Inr (res\<lparr> passed := True, details := ''Size constraints satisfied'' \<rparr>), w)"
  using assms
proof (induction fs)
  case Nil
  show ?case by simp
next
  case (Cons f fs)
  then show ?case by (auto simp add: Let_def)
qed

lemma verify_size_loop_short_circuit:
  assumes "\<forall>g\<in>set pre. snd (size_probe os cid g w) = w"
    and "size_probe os cid f w = (Inr (Some s), w')"
    and "(truthy_int (min_size_mb step) \<and>
              (of_int s :: rat) / (1024 * 1024) < of_int (the (min_size_mb step))) \<or>
         (truthy_int (max_size_mb step) \<and>
              of_int (the (max_size_mb step)) < (of_int s :: rat) / (1024 * 1024))"
  shows "verify_size_loop os step cid res (pre @ f # rest) w =
           verify_size_loop os step cid res (pre @ [f]) w \<and>
         (\<not> passed res \<longrightarrow>
            (\<forall>r. fst (verify_size_loop os step cid res (pre @ f # rest) w) = Inr r
               \<longrightarrow> \<not> passed r))"
  using assms(1)
proof (induction pre)
  case Nil
  show ?case using assms(2,3) by (auto simp add: Let_def)
next
  case (Cons g pre)
  obtain p where p: "size_probe os cid g w = (p, w)"
    using Cons.prems by (cases "size_probe os cid g w") simp
  have ih: "verify_size_loop os step cid res (pre @ f # rest) w =
           verify_size_loop os step cid res (pre @ [f]) w \<and>
         (\<not> passed res \<longrightarrow>
            (\<forall>r. fst (verify_size_loop os step cid res (pre @ f # rest) w) = Inr r
               \<longrightarrow> \<not> passed r))"
    using Cons by simp
  show ?case
    using ih by (auto simp add: p Let_def split: sum.splits option.splits)
qed

lemma run_verification_size:
  assumes "VerificationStep.type step = SIZE_CHECK"
  shows "run_verification os config step cid w =
     (let (t0, w1) = time_time os w;
          (r, w2) = verify_size_loop os step cid (initial_result step) (expected_files step) w1;
          (t1, w3) = time_time os w2
      in ((case r of
             Inl e \<Rightarrow> (initial_result step)\<lparr> VerificationResult.error := Some (exn_message e),
                                               passed := False \<rparr>
           | Inr res \<Rightarrow> res)\<lparr> VerificationResult.duration_seconds := t1 - t0 \<rparr>, w3))"
  using assms by (simp add: run_verification_def run_check_def verify_size_def Let_def)

lemma run_verification_size_eq:
  assumes "VerificationStep.type s1 = SIZE_CHECK" "VerificationStep.type s2 = SIZE_CHECK"
    and "VerificationStep.description s1 = VerificationStep.description s2"
    and "verify_size_loop os s1 cid (initial_result s1) (expected_files s1) (snd (time_time os w)) =
         verify_size_loop os s2 cid (initial_result s1) (expected_files s2) (snd (time_time os w))"
  shows "run_verification os config s1 cid w = run_verification os config s2 cid w"
proof -
  obtain t0 w1 where a: "time_time os w = (t0, w1)" by (cases "time_time os w")
  have i: "initial_result s2 = initial_result s1"
    using assms(1,2,3) by (simp add: initial_result_def)
  have l: "verify_size_loop os s2 cid (initial_result s1) (expected_files s2) w1 =
           verify_size_loop os s1 cid (initial_result s1) (expected_files s1) w1"
    using assms(4) a by simp
  show ?thesis
    unfolding run_verification_size [OF assms(1)] run_verification_size [OF assms(2)] a i
    by (simp add: l)
qed

text \<open>
  Claim C3, as the code has it.  For every \<open>SIZE_CHECK\<close> step whose two bounds are set
  and are not zero, on a machine where measuring the files of the step leaves the state
  as it is: the outcome has \<open>passed\<close> true only if every file of \<open>expected_files\<close>
  has a size with \<open>min_size_mb \<le> size \<le> max_size_mb\<close>, in megabytes; and when a
  file of the list is outside the bounds the outcome is failed and equal to the outcome
  of the step cut after that file, whatever the files after it are.
\<close>

theorem size_check_bounds:
  assumes "VerificationStep.type step = SIZE_CHECK"
    and "min_size_mb step = Some lo" and "lo \<noteq> 0"
    and "max_size_mb step = Some hi" and "hi \<noteq> 0"
    and "\<forall>f\<in>set (expected_files step).
           snd (size_probe os cid f (snd (time_time os w))) = snd (time_time os w)"
  shows "(passed (fst (run_verification os config step cid w)) \<longrightarrow>
            (\<forall>f\<in>set (expected_files step). \<exists>s.
               fst (size_probe os cid f (snd (time_time os w))) = Inr (Some s) \<and>
               of_int lo \<le> (of_int s :: rat) / (1024 * 1024) \<and>
               (of_int s :: rat) / (1024 * 1024) \<le> of_int hi)) \<and>
         (expected_files step = pre @ f # rest \<and>
          fst (size_probe os cid f (snd (time_time os w))) = Inr (Some s) \<and>
          ((of_int s :: rat) / (1024 * 1024) < of_int lo \<or>
           of_int hi < (of_int s :: rat) / (1024 * 1024)) \<longrightarrow>
            \<not> passed (fst (run_verification os config step cid w)) \<and>
            run_verification os config step cid w =
              run_verification os config (step\<lparr> expected_files := pre @ [f] \<rparr>) cid w)"
proof -
  obtain t0 w1 where a: "time_time os w = (t0, w1)" by (cases "time_time os w")
  obtain r w2 where b:
    "verify_size_loop os step cid (initial_result step) (expected_files step) w1 = (r, w2)"
    by (cases "verify_size_loop os step cid (initial_result step) (expected_files step) w1")
  obtain t1 w3 where c: "time_time os w2 = (t1, w3)" by (cases "time_time os w2")
  have ro: "\<forall>f\<in>set (expected_files step). snd (size_probe os cid f w1) = w1"
    using assms(6) a by simp
  have init: "\<not> passed (initial_result step)" by (simp add: initial_result_def)
  have tmin: "truthy_int (min_size_mb step)" and tmax: "truthy_int (max_size_mb step)"
    using assms(2,3,4,5) by (simp_all add: truthy_int_def)
  have pass_eq: "passed (fst (run_verification os config step cid w)) =
      (case r of Inl e \<Rightarrow> False | Inr res \<Rightarrow> passed res)"
    by (simp add: run_verification_size [OF assms(1)] a b c split: sum.splits)
  have part1: "passed (fst (run_verification os config step cid w)) \<longrightarrow>
            (\<forall>f\<in>set (expected_files step). \<exists>s.
               fst (size_probe os cid f (snd (time_time os w))) = Inr (Some s) \<and>
               of_int lo \<le> (of_int s :: rat) / (1024 * 1024) \<and>
               (of_int s :: rat) / (1024 * 1024) \<le> of_int hi)"
  proof
    assume "passed (fst (run_verification os config step cid w))"
    with pass_eq obtain res where res: "r = Inr res" "passed res"
      by (cases r) simp_all
    have "fst (verify_size_loop os step cid (initial_result step) (expected_files step) w1) = Inr res"
      using b res(1) by simp
    from verify_size_loop_passed [OF ro init this res(2)]
    show "\<forall>f\<in>set (expected_files step). \<exists>s.
               fst (size_probe os cid f (snd (time_time os w))) = Inr (Some s) \<and>
               of_int lo \<le> (of_int s :: rat) / (1024 * 1024) \<and>
               (of_int s :: rat) / (1024 * 1024) \<le> of_int hi"
      using tmin tmax assms(2,4) a by (simp add: not_less)
  qed
  have part2: "expected_files step = pre @ f # rest \<and>
          fst (size_probe os cid f (snd (time_time os w))) = Inr (Some s) \<and>
          ((of_int s :: rat) / (1024 * 1024) < of_int lo \<or>
           of_int hi < (of_int s :: rat) / (1024 * 1024)) \<longrightarrow>
            \<not> passed (fst (run_verification os config step cid w)) \<and>
            run_verification os config step cid w =
              run_verification os config (step\<lparr> expected_files := pre @ [f] \<rparr>) cid w"
  proof
    assume h: "expected_files step = pre @ f # rest \<and>
          fst (size_probe os cid f (snd (time_time os w))) = Inr (Some s) \<and>
          ((of_int s :: rat) / (1024 * 1024) < of_int lo \<or>
           of_int hi < (of_int s :: rat) / (1024 * 1024))"
    then have files: "expected_files step = pre @ f # rest" by simp
    have ro_pre: "\<forall>g\<in>set pre. snd (size_probe os cid g w1) = w1"
      using ro files by simp
    have "snd (size_probe os cid f w1) = w1" using ro files by simp
    with h a have probe: "size_probe os cid f w1 = (Inr (Some s), w1)"
      by (cases "size_probe os cid f w1") simp
    have viol: "(truthy_int (min_size_mb step) \<and>
              (of_int s :: rat) / (1024 * 1024) < of_int (the (min_size_mb step))) \<or>
         (truthy_int (max_size_mb step) \<and>
              of_int (the (max_size_mb step)) < (of_int s :: rat) / (1024 * 1024))"
      using h tmin tmax assms(2,4) by simp
    note sc = verify_size_loop_short_circuit [OF ro_pre probe viol,
                of "initial_result step" rest]
    have np: "\<not> passed (fst (run_verification os config step cid w))"
      using sc init b files pass_eq by (cases r) simp_all
    let ?step' = "step\<lparr> expected_files := pre @ [f] \<rparr>"
    have "verify_size_loop os step cid (initial_result step) (pre @ [f]) w1 =
          verify_size_loop os ?step' cid (initial_result step) (pre @ [f]) w1"
      by (rule verify_size_loop_bounds_cong) simp_all
    with sc files have "verify_size_loop os step cid (initial_result step) (expected_files step)
             (snd (time_time os w)) =
          verify_size_loop os ?step' cid (initial_result step) (expected_files ?step')
             (snd (time_time os w))"
      using a by simp
    then have "run_verification os config step cid w = run_verification os config ?step' cid w"
      using assms(1) by (intro run_verification_size_eq) simp_all
    with np show "\<not> passed (fst (run_verification os config step cid w)) \<and>
            run_verification os config step cid w =
              run_verification os config (step\<lparr> expected_files := pre @ [f] \<rparr>) cid w"
      by simp
  qed
  show ?thesis using part1 part2 by (rule conjI)
qed

text \<open>
  Two files within the bounds pass.  An empty file fails a minimum of 5 MB, and the
  missing file listed after it, whose measurement would raise, is never looked at.
\<close>

theorem size_check_bounds_witness:
  "passed (fst (run_verification example_os default_config
                  (size_step [''a'', ''b''] (Some 1) (Some 50)) ''local'' 0)) \<and>
   fst (size_probe example_os ''local'' ''b'' (snd (time_time example_os 0))) = Inr (Some 1048576) \<and>
   \<not> passed (fst (run_verification example_os default_config
                  (size_step [''e'', ''z''] (Some 5) (Some 500)) ''local'' 0)) \<and>
   details (fst (run_verification example_os default_config
                  (size_step [''e'', ''z''] (Some 5) (Some 500)) ''local'' 0)) =
     ''e: 0.0MB < min 5MB'' \<and>
   run_verification example_os default_config
     (size_step [''e'', ''z''] (Some 5) (Some 500)) ''local'' 0 =
   run_verification example_os default_config
     (size_step [''e''] (Some 5) (Some 500)) ''local'' 0"
  using size_check_bounds [of "size_step [''a'', ''b''] (Some 1) (Some 50)" 1 50
          example_os "''local''" 0 default_config "[]" "''a''" "[''b'']" 1048576]
        size_check_bounds [of "size_step [''e'', ''z''] (Some 5) (Some 500)" 5 500
          example_os "''local''" 0 default_config "[]" "''e''" "[''z'']" 0]
  by (simp add: Let_def example_os_def size_step_def run_verification_def initial_result_def
      run_check_def verify_size_def size_probe_def truthy_int_def format_1f_def
      round_half_even_def str_int_def digits_of_nat.simps digit_char_def)

text \<open>
  The claim as stated fails when a bound is \<open>0\<close>: with both bounds \<open>0\<close> a file of
  one megabyte passes.
\<close>

theorem size_check_zero_max_counterexample:
  "passed (fst (run_verification example_os default_config
                  (size_step [''a''] (Some 0) (Some 0)) ''local'' 0)) \<and>
   fst (size_probe example_os ''local'' ''a'' (snd (time_time example_os 0))) =
     Inr (Some 1048576) \<and>
   (of_int 0 :: rat) < of_int 1048576 / (1024 * 1024)"
  by (simp add: Let_def example_os_def size_step_def run_verification_def initial_result_def
      run_check_def verify_size_def size_probe_def truthy_int_def)

text \<open>
  Claim C10.  For every \<open>SIZE_CHECK\<close> step, a bound that is \<open>0\<close> is treated as an
  absent one: the outcome with \<open>min_size_mb = 0\<close> is the outcome with \<open>min_size_mb\<close>
  absent, and the same for \<open>max_size_mb\<close>.  So when each bound is zero or absent and
  every file can be measured, the check passes, whatever the sizes are.
\<close>

theorem zero_bound_ignored:
  assumes "VerificationStep.type step = SIZE_CHECK"
  shows "run_verification os config (step\<lparr> min_size_mb := Some 0 \<rparr>) cid w =
           run_verification os config (step\<lparr> min_size_mb := None \<rparr>) cid w \<and>
         run_verification os config (step\<lparr> max_size_mb := Some 0 \<rparr>) cid w =
           run_verification os config (step\<lparr> max_size_mb := None \<rparr>) cid w \<and>
         ((min_size_mb step = None \<or> min_size_mb step = Some 0) \<and>
          (max_size_mb step = None \<or> max_size_mb step = Some 0) \<and>
          (\<forall>f\<in>set (expected_files step). \<exists>s.
              size_probe os cid f (snd (time_time os w)) = (Inr (Some s), snd (time_time os w)))
          \<longrightarrow> passed (fst (run_verification os config step cid w)))"
proof -
  have mineq: "run_verification os config (step\<lparr> min_size_mb := Some 0 \<rparr>) cid w =
           run_verification os config (step\<lparr> min_size_mb := None \<rparr>) cid w"
  proof (rule run_verification_size_eq)
    show "verify_size_loop os (step\<lparr> min_size_mb := Some 0 \<rparr>) cid
            (initial_result (step\<lparr> min_size_mb := Some 0 \<rparr>))
            (expected_files (step\<lparr> min_size_mb := Some 0 \<rparr>)) (snd (time_time os w)) =
          verify_size_loop os (step\<lparr> min_size_mb := None \<rparr>) cid
            (initial_result (step\<lparr> min_size_mb := Some 0 \<rparr>))
            (expected_files (step\<lparr> min_size_mb := None \<rparr>)) (snd (time_time os w))"
      by (simp, rule verify_size_loop_bounds_cong) (simp_all add: truthy_int_def)
  qed (simp_all add: assms)
  have maxeq: "run_verification os config (step\<lparr> max_size_mb := Some 0 \<rparr>) cid w =
           run_verification os config (step\<lparr> max_size_mb := None \<rparr>) cid w"
  proof (rule run_verification_size_eq)
    show "verify_size_loop os (step\<lparr> max_size_mb := Some 0 \<rparr>) cid
            (initial_result (step\<lparr> max_size_mb := Some 0 \<rparr>))
            (expected_files (step\<lparr> max_size_mb := Some 0 \<rparr>)) (snd (time_time os w)) =
          verify_size_loop os (step\<lparr> max_size_mb := None \<rparr>) cid
            (initial_result (step\<lparr> max_size_mb := Some 0 \<rparr>))
            (expected_files (step\<lparr> max_size_mb := None \<rparr>)) (snd (time_time os w))"
      by (simp, rule verify_size_loop_bounds_cong) (simp_all add: truthy_int_def)
  qed (simp_all add: assms)
  have pass: "(min_size_mb step = None \<or> min_size_mb step = Some 0) \<and>
          (max_size_mb step = None \<or> max_size_mb step = Some 0) \<and>
          (\<forall>f\<in>set (expected_files step). \<exists>s.
              size_probe os cid f (snd (time_time os w)) = (Inr (Some s), snd (time_time os w)))
          \<longrightarrow> passed (fst (run_verification os config step cid w))"
  proof
    assume h: "(min_size_mb step = None \<or> min_size_mb step = Some 0) \<and>
          (max_size_mb step = None \<or> max_size_mb step = Some 0) \<and>
          (\<forall>f\<in>set (expected_files step). \<exists>s.
              size_probe os cid f (snd (time_time os w)) = (Inr (Some s), snd (time_time os w)))"
    then have nt: "\<not> truthy_int (min_size_mb step)" "\<not> truthy_int (max_size_mb step)"
      by (auto simp add: truthy_int_def)
    have "verify_size_loop os step cid (initial_result step) (expected_files step)
            (snd (time_time os w)) =
          (Inr ((initial_result step)\<lparr> passed := True, details := ''Size constraints satisfied'' \<rparr>),
           snd (time_time os w))"
      using h nt by (intro verify_size_loop_complete) simp
    moreover obtain t0 w1 where a: "time_time os w = (t0, w1)" by (cases "time_time os w")
    ultimately show "passed (fst (run_verification os config step cid w))"
      by (simp add: run_verification_size [OF assms] Let_def split: prod.splits)
  qed
  show ?thesis using mineq maxeq pass by simp
qed

text \<open>
  An empty file against a minimum of \<open>0\<close>, and files of one megabyte and of no bytes
  against both bounds \<open>0\<close>.
\<close>

theorem zero_bound_ignored_witness:
  "run_verification example_os default_config (size_step [''e''] (Some 0) (Some 500)) ''local'' 0 =
   run_verification example_os default_config (size_step [''e''] None (Some 500)) ''local'' 0 \<and>
   passed (fst (run_verification example_os default_config
                  (size_step [''e''] (Some 0) (Some 500)) ''local'' 0)) \<and>
   passed (fst (run_verification example_os default_config
                  (size_step [''a'', ''e''] (Some 0) (Some 0)) ''local'' 0))"
  using zero_bound_ignored [of "size_step [''e''] (Some 5) (Some 500)" example_os default_config
          "''local''" 0]
        zero_bound_ignored [of "size_step [''a'', ''e''] (Some 0) (Some 0)" example_os
          default_config "''local''" 0]
  by (simp add: Let_def example_os_def size_step_def run_verification_def initial_result_def
      run_check_def verify_size_def size_probe_def truthy_int_def)

section \<open>The trace collector\<close>

subsection \<open>Recording a tool call\<close>

lemma str_contains_sublist: "str_contains s sub = sublist sub s"
  by (induction s) (simp_all add: sublist_Cons_right)

lemma sublist_map_iff:
  "sublist pat (map f s) = (\<exists>pre mid post. s = pre @ mid @ post \<and> map f mid = pat)"
proof
  assume "sublist pat (map f s)"
  then obtain ps ss where "map f s = ps @ (pat @ ss)" by (auto simp add: sublist_def)
  then have "\<exists>us vs. s = us @ vs \<and> ps = map f us \<and> pat @ ss = map f vs"
    by (simp only: map_eq_append_conv)
  then obtain us vs where s: "s = us @ vs" and v: "map f vs = pat @ ss"
    by auto
  from v have "\<exists>mid post. vs = mid @ post \<and> pat = map f mid \<and> ss = map f post"
    by (simp only: map_eq_append_conv)
  then obtain mid post where "vs = mid @ post" "map f mid = pat"
    by auto
  with s have "s = us @ mid @ post \<and> map f mid = pat" by simp
  then show "\<exists>pre mid post. s = pre @ mid @ post \<and> map f mid = pat" by blast
next
  assume "\<exists>pre mid post. s = pre @ mid @ post \<and> map f mid = pat"
  then obtain pre mid post where "s = pre @ mid @ post" "map f mid = pat" by blast
  then have "map f s = map f pre @ pat @ map f post" by simp
  then show "sublist pat (map f s)" unfolding sublist_def by blast
qed

lemma error_heuristic:
  "(\<not> str_contains (lower s) ''error'') =
     (\<not> (\<exists>pre mid post. s = pre @ mid @ post \<and> lower mid = ''error''))"
  by (simp add: str_contains_sublist lower_def sublist_map_iff)

text \<open>
  Claim C7.  For every tool invocation that the post-call hook records (a trace is being
  collected), the hook appends one \<open>ToolCall\<close> to the trace and counts it; the call's
  \<open>success\<close> is true if and only if no part of the stringified output reads \<open>error\<close>
  when put in lower case, and its \<open>tool_output\<close> is the first 5000 characters of the
  stringified output.
\<close>

theorem post_tool_hook_records:
  assumes "current_trace self = Some trace"
  shows "\<exists>call. current_trace (fst (post_tool_hook os self input_data w)) =
             Some (trace\<lparr> tool_calls := tool_calls trace @ [call],
                          total_tool_calls := total_tool_calls trace + 1 \<rparr>) \<and>
           ToolCall.tool_name call = HookInput.tool_name input_data \<and>
           ToolCall.tool_input call = HookInput.tool_input input_data \<and>
           ToolCall.success call =
             (\<not> (\<exists>pre mid post. tool_response input_data = pre @ mid @ post \<and>
                                  lower mid = ''error'')) \<and>
           tool_output call = Some (take 5000 (tool_response input_data)) \<and>
           length (take 5000 (tool_response input_data)) \<le> 5000"
proof -
  define dw where "dw =
     (if truthy_rat (tool_start_time self)
      then (let (t, w') = time_time os w in (t - the (tool_start_time self), w'))
      else (0, w))"
  obtain d w1 where a: "dw = (d, w1)" by (cases dw)
  obtain now w2 where b: "datetime_now os w1 = (now, w2)"
    by (cases "datetime_now os w1")
  define call where "call =
     \<lparr> ToolCall.tool_name = HookInput.tool_name input_data,
       ToolCall.tool_input = HookInput.tool_input input_data,
       tool_output = Some (take 5000 (tool_response input_data)),
       ToolCall.duration_seconds = round2 d,
       ToolCall.timestamp = isoformat now,
       ToolCall.success = (\<not> str_contains (lower (tool_response input_data)) ''error''),
       ToolCall.error = None \<rparr>"
  have "post_tool_hook os self input_data w =
      (self\<lparr> current_trace :=
                Some (trace\<lparr> tool_calls := tool_calls trace @ [call],
                             total_tool_calls := total_tool_calls trace + 1 \<rparr>) \<rparr>, w2)"
    unfolding post_tool_hook_def dw_def [symmetric]
    using assms by (simp add: a b Let_def call_def)
  then have "current_trace (fst (post_tool_hook os self input_data w)) =
             Some (trace\<lparr> tool_calls := tool_calls trace @ [call],
                          total_tool_calls := total_tool_calls trace + 1 \<rparr>) \<and>
           ToolCall.tool_name call = HookInput.tool_name input_data \<and>
           ToolCall.tool_input call = HookInput.tool_input input_data \<and>
           ToolCall.success call =
             (\<not> (\<exists>pre mid post. tool_response input_data = pre @ mid @ post \<and>
                                  lower mid = ''error'')) \<and>
           tool_output call = Some (take 5000 (tool_response input_data)) \<and>
           length (take 5000 (tool_response input_data)) \<le> 5000"
    by (simp add: call_def error_heuristic)
  then show ?thesis by (rule exI)
qed

text \<open>An output of \<open>make\<close> that reports \<open>Error 2\<close>, then a listing.\<close>

theorem post_tool_hook_records_witness:
  "(let self = fst (post_tool_hook example_os (example_runner (Some example_trace))
                      (bash_call ''cat build.log'' ''make: *** [all] Error 2'') 0);
        self2 = fst (post_tool_hook example_os self (bash_call ''ls'' ''vmlinuz initramfs'') 0)
    in current_trace (example_runner (Some example_trace)) = Some example_trace \<and>
       map ToolCall.success (tool_calls (the (current_trace self2))) = [False, True] \<and>
       map tool_output (tool_calls (the (current_trace self2))) =
         [Some ''make: *** [all] Error 2'', Some ''vmlinuz initramfs''] \<and>
       total_tool_calls (the (current_trace self2)) = 2)"
  using post_tool_hook_records [of "example_runner (Some example_trace)" example_trace
          example_os "bash_call ''cat build.log'' ''make: *** [all] Error 2''" 0]
  by (simp add: Let_def post_tool_hook_def example_runner_def example_trace_def bash_call_def
      example_os_def truthy_rat_def lower_def lower_char_def round2_def round_half_even_def
      isoformat_def some_day_def zero_pad_def digits_of_nat.simps digit_char_def)

subsection \<open>The final output\<close>

lemma first_text_serialized:
  "first_text (concat (map serialize_block bs)) =
     Inr (case block_texts bs of [] \<Rightarrow> None | t # ts \<Rightarrow> Some (take 2000 t))"
proof (induction bs)
  case Nil
  show ?case by simp
next
  case (Cons b bs)
  then show ?case
    by (cases b) (simp_all add: and_then_def get_default_def)
qed

lemma extract_loop_serialized:
  "extract_loop (map serialize_message ms) =
     Inr (case filter (\<lambda>m. message_texts m \<noteq> []) ms of
            [] \<Rightarrow> []
          | m # rest \<Rightarrow> take 2000 (hd (message_texts m)))"
proof (induction ms)
  case Nil
  show ?case by simp
next
  case (Cons m ms)
  show ?case
  proof (cases m)
    case (AssistantMessage bs)
    then show ?thesis
      using Cons.IH
      by (cases "block_texts bs")
         (simp_all add: get_default_def and_then_def first_text_serialized)
  next
    case (UserMessage c)
    then show ?thesis using Cons.IH by simp
  next
    case (OtherMessage c)
    then show ?thesis using Cons.IH by simp
  qed
qed

text \<open>
  What the code computes on serialised messages.  The outer loop runs over the messages
  last to first, the inner loop over the blocks of a message first to last.
\<close>

lemma extract_final_output_serialized:
  "extract_final_output (map serialize_message ms) =
     Inr (case filter (\<lambda>m. message_texts m \<noteq> []) ms of
            [] \<Rightarrow> []
          | m # rest \<Rightarrow> take 2000 (hd (message_texts (last (m # rest)))))"
proof -
  have "extract_final_output (map serialize_message ms) =
          extract_loop (map serialize_message (rev ms))"
    by (simp add: extract_final_output_def rev_map)
  also have "\<dots> = Inr (case rev (filter (\<lambda>m. message_texts m \<noteq> []) ms) of
            [] \<Rightarrow> []
          | m # rest \<Rightarrow> take 2000 (hd (message_texts m)))"
    by (simp add: extract_loop_serialized rev_filter)
  also have "\<dots> = Inr (case filter (\<lambda>m. message_texts m \<noteq> []) ms of
            [] \<Rightarrow> []
          | m # rest \<Rightarrow> take 2000 (hd (message_texts (last (m # rest)))))"
  proof (cases "filter (\<lambda>m. message_texts m \<noteq> []) ms" rule: rev_cases)
    case Nil
    then show ?thesis by simp
  next
    case (snoc xs x)
    then show ?thesis by (cases xs) simp_all
  qed
  finally show ?thesis .
qed

text \<open>
  Claim C8, on the code.  The final output should be the most recent text block of the
  assistant.  The code reverses the messages but not the blocks of a message: of two
  text blocks \<open>A\<close> and \<open>B\<close> in one message it returns \<open>A\<close>, and in the
  conversation below it returns \<open>I will check\<close> and drops the later
  \<open>Done: success\<close> of the same message.
\<close>

theorem final_output_returns_first_block:
  "extract_final_output
     (map serialize_message [AssistantMessage [TextBlock ''A'', TextBlock ''B'']]) = Inr ''A'' \<and>
   most_recent_text_block [AssistantMessage [TextBlock ''A'', TextBlock ''B'']] = ''B'' \<and>
   extract_final_output
     (map serialize_message
        [AssistantMessage [TextBlock ''first answer''], UserMessage ''tool result'',
         AssistantMessage [ToolUseBlock ''Bash'' [(''command'', PStr ''ls'')],
                           TextBlock ''I will check'', TextBlock ''Done: success''],
         AssistantMessage [ToolUseBlock ''Bash'' [(''command'', PStr ''ls'')]],
         OtherMessage ''result'']) = Inr ''I will check'' \<and>
   most_recent_text_block
        [AssistantMessage [TextBlock ''first answer''], UserMessage ''tool result'',
         AssistantMessage [ToolUseBlock ''Bash'' [(''command'', PStr ''ls'')],
                           TextBlock ''I will check'', TextBlock ''Done: success''],
         AssistantMessage [ToolUseBlock ''Bash'' [(''command'', PStr ''ls'')]],
         OtherMessage ''result''] = ''Done: success''"
  by (simp add: extract_final_output_def most_recent_text_block_def and_then_def
      get_default_def)

subsection \<open>A run that raises\<close>







end
